theory Spec2Isabelle
  imports Complex_Main
begin

section \<open>Numbers\<close>

text \<open>
  A TypeScript \<open>number\<close> is an IEEE 754 binary64 value.  The type below holds the finite
  values as reals and keeps the infinities and \<open>NaN\<close> apart; \<open>round64\<close> rounds a real to
  the nearest binary64 value, ties to even, and overflows to an infinity, so that a sum,
  a difference or a quotient of the source is the rounded exact result and a decimal
  literal such as \<open>0.05\<close> is \<open>round64 0.05\<close>.  The sign of a zero is not kept: no
  modelled division has a computed zero as its divisor.  The scores that are sums,
  differences and quotients of coordinates (the push-up body alignment, the chin-up body
  position and the chin over the bar) are computed this way, on finite coordinates.

  \<open>Math.acos\<close> is not correctly rounded by the platform, so the angles and the scores
  computed from them are taken in exact real arithmetic, where a value that may be \<open>NaN\<close>
  is a \<open>real option\<close> with \<open>None\<close> for \<open>NaN\<close>; the plank scores are taken in exact
  arithmetic as well.  Every comparison with \<open>NaN\<close> is false.  Clock readings
  (\<open>Date.now()\<close>) and counters are integers.
\<close>

datatype quotient = Fin real | PosInf | NegInf | NaN

type_synonym num = "real option"

definition round_even :: "real \<Rightarrow> int" where
  \<comment> \<open>the nearest integer, a tie going to the even one\<close>
  "round_even y =
     (let f = \<lfloor>y\<rfloor>; d = y - of_int f
      in if d < 1 / 2 then f else if 1 / 2 < d then f + 1
         else if even f then f else f + 1)"

definition emin :: int where
  \<comment> \<open>the exponent of the smallest positive binary64 value\<close>
  "emin = - 1074"

definition huge :: real where
  \<comment> \<open>the least magnitude that overflows\<close>
  "huge = 2 ^ 1024"

definition quantum :: "real \<Rightarrow> real" where
  \<comment> \<open>the spacing of the binary64 values around x: 53 significant bits, or the
      subnormal spacing\<close>
  "quantum x = 2 powi (max (\<lfloor>log 2 \<bar>x\<bar>\<rfloor> - 52) emin)"

definition round64 :: "real \<Rightarrow> quotient" where
  "round64 x =
     (if x = 0 then Fin 0
      else
        let r = of_int (round_even (x / quantum x)) * quantum x
        in if huge \<le> \<bar>r\<bar> then (if 0 < x then PosInf else NegInf) else Fin r)"

definition is_double :: "real \<Rightarrow> bool" where
  \<comment> \<open>x is a finite binary64 value\<close>
  "is_double x = (round64 x = Fin x)"

fun q_neg :: "quotient \<Rightarrow> quotient" where
  "q_neg (Fin x) = Fin (- x)"
| "q_neg PosInf = NegInf"
| "q_neg NegInf = PosInf"
| "q_neg NaN = NaN"

fun q_add :: "quotient \<Rightarrow> quotient \<Rightarrow> quotient" where
  "q_add NaN b = NaN"
| "q_add a NaN = NaN"
| "q_add PosInf NegInf = NaN"
| "q_add NegInf PosInf = NaN"
| "q_add PosInf b = PosInf"
| "q_add a PosInf = PosInf"
| "q_add NegInf b = NegInf"
| "q_add a NegInf = NegInf"
| "q_add (Fin x) (Fin y) = round64 (x + y)"

definition q_sub :: "quotient \<Rightarrow> quotient \<Rightarrow> quotient" where
  "q_sub a b = q_add a (q_neg b)"

fun q_div :: "quotient \<Rightarrow> quotient \<Rightarrow> quotient" where
  "q_div NaN b = NaN"
| "q_div a NaN = NaN"
| "q_div (Fin x) (Fin y) =
     (if y \<noteq> 0 then round64 (x / y)
      else if x = 0 then NaN else if 0 < x then PosInf else NegInf)"
| "q_div (Fin x) b = Fin 0"
| "q_div PosInf (Fin y) = (if 0 \<le> y then PosInf else NegInf)"
| "q_div NegInf (Fin y) = (if 0 \<le> y then NegInf else PosInf)"
| "q_div a b = NaN"

fun q_less :: "quotient \<Rightarrow> quotient \<Rightarrow> bool" where
  "q_less NaN b = False"
| "q_less a NaN = False"
| "q_less (Fin x) (Fin y) = (x < y)"
| "q_less a NegInf = False"
| "q_less PosInf b = False"
| "q_less a b = True"

fun q_le :: "quotient \<Rightarrow> quotient \<Rightarrow> bool" where
  "q_le NaN b = False"
| "q_le a NaN = False"
| "q_le (Fin x) (Fin y) = (x \<le> y)"
| "q_le NegInf b = True"
| "q_le a PosInf = True"
| "q_le a b = False"

definition q_min :: "quotient \<Rightarrow> quotient \<Rightarrow> quotient" where
  \<comment> \<open>\<open>Math.min\<close>\<close>
  "q_min a b = (if a = NaN \<or> b = NaN then NaN else if q_less b a then b else a)"

definition q_max :: "quotient \<Rightarrow> quotient \<Rightarrow> quotient" where
  \<comment> \<open>\<open>Math.max\<close>\<close>
  "q_max a b = (if a = NaN \<or> b = NaN then NaN else if q_less a b then b else a)"

fun q_abs :: "quotient \<Rightarrow> quotient" where
  "q_abs (Fin x) = Fin \<bar>x\<bar>"
| "q_abs NaN = NaN"
| "q_abs a = PosInf"

definition js_div :: "real \<Rightarrow> real \<Rightarrow> quotient" where
  \<comment> \<open>\<open>a / b\<close> for finite a and a finite b that is not the negative zero\<close>
  "js_div a b =
     (if b \<noteq> 0 then Fin (a / b)
      else if a = 0 then NaN
      else if 0 < a then PosInf else NegInf)"

definition js_acos :: "quotient \<Rightarrow> num" where
  \<comment> \<open>\<open>Math.acos\<close>: \<open>NaN\<close> outside \<open>[-1, 1]\<close>\<close>
  "js_acos q =
     (case q of
        Fin r \<Rightarrow> (if -1 \<le> r \<and> r \<le> 1 then Some (arccos r) else None)
      | _ \<Rightarrow> None)"

definition js_clamp :: "quotient \<Rightarrow> quotient" where
  \<comment> \<open>\<open>Math.max(-1, Math.min(1, q))\<close>; both propagate \<open>NaN\<close>\<close>
  "js_clamp q =
     (case q of
        Fin r \<Rightarrow> Fin (max (-1) (min 1 r))
      | PosInf \<Rightarrow> Fin 1
      | NegInf \<Rightarrow> Fin (-1)
      | NaN \<Rightarrow> NaN)"

definition num_gt :: "num \<Rightarrow> real \<Rightarrow> bool" where
  "num_gt a r = (case a of None \<Rightarrow> False | Some v \<Rightarrow> v > r)"

definition num_lt :: "num \<Rightarrow> real \<Rightarrow> bool" where
  "num_lt a r = (case a of None \<Rightarrow> False | Some v \<Rightarrow> v < r)"

definition num_le :: "num \<Rightarrow> real \<Rightarrow> bool" where
  "num_le a r = (case a of None \<Rightarrow> False | Some v \<Rightarrow> v \<le> r)"

definition digit :: "nat \<Rightarrow> char" where
  "digit n = ''0123456789'' ! (n mod 10)"

function show_nat :: "nat \<Rightarrow> string" where
  "show_nat n = (if n < 10 then [digit n] else show_nat (n div 10) @ [digit n])"
  by pat_completeness auto
termination
  by (relation "measure id") auto

declare show_nat.simps [simp del]

definition show_int :: "int \<Rightarrow> string" where
  \<comment> \<open>the decimal rendering of an integer inside a template literal\<close>
  "show_int i = (if i < 0 then CHR ''-'' # show_nat (nat (- i)) else show_nat (nat i))"

section \<open>Data model (types/index.ts)\<close>

record Landmark3D =
  lx :: real
  ly :: real
  lz :: real
  visibility :: "real option"

record PoseResult =
  landmarks :: "Landmark3D list"
  worldLandmarks :: "Landmark3D list"
  confidence :: real
  timestamp :: int

record ExerciseValidation =
  isValid :: bool
  feedback :: "string list"
  completedRep :: bool
  formScore :: real

section \<open>ExerciseValidator.ts: the base class\<close>

record ExerciseValidator =
  repCount :: int
  isInPosition :: bool
  lastValidationTime :: int
  validationHistory :: "bool list"

definition historySize :: nat where
  "historySize = 5"

definition ExerciseValidator_reset ::
  "'a ExerciseValidator_scheme \<Rightarrow> 'a ExerciseValidator_scheme" where
  "ExerciseValidator_reset s =
     s\<lparr>repCount := 0, isInPosition := False, lastValidationTime := 0,
       validationHistory := []\<rparr>"

definition getRepCount :: "'a ExerciseValidator_scheme \<Rightarrow> int" where
  "getRepCount s = repCount s"

definition calculateAngle :: "Landmark3D \<Rightarrow> Landmark3D \<Rightarrow> Landmark3D \<Rightarrow> num" where
  "calculateAngle a b c =
     (let bax = lx a - lx b; bay = ly a - ly b;
          bcx = lx c - lx b; bcy = ly c - ly b;
          dotProduct = bax * bcx + bay * bcy;
          magnitudeBA = sqrt (bax * bax + bay * bay);
          magnitudeBC = sqrt (bcx * bcx + bcy * bcy);
          angleRad = js_acos (js_div dotProduct (magnitudeBA * magnitudeBC))
      in map_option (\<lambda>r. r * (180 / pi)) angleRad)"

definition calculateDistance :: "Landmark3D \<Rightarrow> Landmark3D \<Rightarrow> real" where
  "calculateDistance a b =
     (let dx = lx a - lx b; dy = ly a - ly b; dz = lz a - lz b
      in sqrt (dx * dx + dy * dy + dz * dz))"

definition isLandmarkReliable :: "Landmark3D option \<Rightarrow> bool" where
  \<comment> \<open>\<open>minVisibility\<close> is left at its default 0.5 by every caller\<close>
  "isLandmarkReliable landmark =
     (case landmark of
        None \<Rightarrow> False
      | Some l \<Rightarrow> (case visibility l of None \<Rightarrow> False | Some v \<Rightarrow> v \<ge> 0.5))"

definition addToValidationHistory ::
  "bool \<Rightarrow> 'a ExerciseValidator_scheme \<Rightarrow> bool \<times> 'a ExerciseValidator_scheme" where
  "addToValidationHistory v s =
     (let h = validationHistory s @ [v];
          h' = (if length h > historySize then tl h else h);
          validCount = length (filter (\<lambda>b. b) h')
      in (int validCount \<ge> \<lceil>real historySize * 0.6\<rceil>, s\<lparr>validationHistory := h'\<rparr>))"

definition hasEnoughTimePassed ::
  "int \<Rightarrow> int \<Rightarrow> 'a ExerciseValidator_scheme \<Rightarrow> bool \<times> 'a ExerciseValidator_scheme" where
  \<comment> \<open>\<open>now\<close> is the value \<open>Date.now()\<close> returns inside the call\<close>
  "hasEnoughTimePassed now minInterval s =
     (let timePassed = now - lastValidationTime s
      in if timePassed \<ge> minInterval then (True, s\<lparr>lastValidationTime := now\<rparr>)
         else (False, s))"

definition getLandmark :: "PoseResult \<Rightarrow> nat \<Rightarrow> Landmark3D option" where
  "getLandmark poseResult index =
     (if index \<ge> length (landmarks poseResult) then None
      else Some (landmarks poseResult ! index))"

definition calculateFormScore :: "bool list \<Rightarrow> real" where
  "calculateFormScore criteria =
     (if length criteria = 0 then 0
      else real (length (filter (\<lambda>c. c) criteria)) / real (length criteria))"

text \<open>The landmark indices shared by the three validators (\<open>POSE_LANDMARKS\<close>).\<close>

definition NOSE :: nat where "NOSE = 0"
definition LEFT_SHOULDER :: nat where "LEFT_SHOULDER = 11"
definition RIGHT_SHOULDER :: nat where "RIGHT_SHOULDER = 12"
definition LEFT_ELBOW :: nat where "LEFT_ELBOW = 13"
definition RIGHT_ELBOW :: nat where "RIGHT_ELBOW = 14"
definition LEFT_WRIST :: nat where "LEFT_WRIST = 15"
definition RIGHT_WRIST :: nat where "RIGHT_WRIST = 16"
definition LEFT_HIP :: nat where "LEFT_HIP = 23"
definition RIGHT_HIP :: nat where "RIGHT_HIP = 24"
definition LEFT_KNEE :: nat where "LEFT_KNEE = 25"
definition RIGHT_KNEE :: nat where "RIGHT_KNEE = 26"
definition LEFT_ANKLE :: nat where "LEFT_ANKLE = 27"
definition RIGHT_ANKLE :: nat where "RIGHT_ANKLE = 28"

definition invalidResult :: "string \<Rightarrow> ExerciseValidation" where
  \<comment> \<open>the object literal returned by the two early exits of every \<open>validate\<close>\<close>
  "invalidResult msg =
     \<lparr>isValid = False, feedback = [msg], completedRep = False, formScore = 0\<rparr>"

section \<open>PushUpValidator.ts\<close>

record PushUpValidator = ExerciseValidator +
  pu_isInDownPosition :: bool
  pu_isInUpPosition :: bool

definition pu_minArmAngle :: real where "pu_minArmAngle = 70"
definition pu_maxArmAngle :: real where "pu_maxArmAngle = 160"
definition pu_bodyAlignmentThreshold :: quotient where
  "pu_bodyAlignmentThreshold = round64 0.1"

definition PushUp_new :: PushUpValidator where
  \<comment> \<open>the field initialisers of a fresh instance\<close>
  "PushUp_new =
     \<lparr>repCount = 0, isInPosition = False, lastValidationTime = 0, validationHistory = [],
      pu_isInDownPosition = False, pu_isInUpPosition = False\<rparr>"

definition PushUp_checkBodyAlignment ::
  "Landmark3D \<Rightarrow> Landmark3D \<Rightarrow> Landmark3D \<Rightarrow> Landmark3D \<Rightarrow> quotient" where
  "PushUp_checkBodyAlignment leftShoulder rightShoulder leftHip rightHip =
     (let shoulderCenterY =
            q_div (q_add (Fin (ly leftShoulder)) (Fin (ly rightShoulder))) (Fin 2);
          hipCenterY = q_div (q_add (Fin (ly leftHip)) (Fin (ly rightHip))) (Fin 2);
          verticalDifference = q_abs (q_sub shoulderCenterY hipCenterY);
          alignmentScore =
            q_max (Fin 0)
              (q_sub (Fin 1) (q_div verticalDifference pu_bodyAlignmentThreshold))
      in q_min (Fin 1) alignmentScore)"

definition checkArmSymmetry :: "num \<Rightarrow> num \<Rightarrow> num" where
  \<comment> \<open>the same private method in the push-up and the chin-up validator\<close>
  "checkArmSymmetry leftArmAngle rightArmAngle =
     (case (leftArmAngle, rightArmAngle) of
        (Some l, Some r) \<Rightarrow>
          (let angleDifference = \<bar>l - r\<bar>;
               maxAllowedDifference = 30;
               symmetryScore = max 0 (1 - angleDifference / maxAllowedDifference)
           in Some (min 1 symmetryScore))
      | _ \<Rightarrow> None)"

definition avgAngle :: "num \<Rightarrow> num \<Rightarrow> num" where
  \<comment> \<open>\<open>(leftArmAngle + rightArmAngle) / 2\<close>\<close>
  "avgAngle leftArmAngle rightArmAngle =
     (case (leftArmAngle, rightArmAngle) of
        (Some l, Some r) \<Rightarrow> Some ((l + r) / 2)
      | _ \<Rightarrow> None)"

definition PushUp_requiredLandmarks :: "PoseResult \<Rightarrow> Landmark3D option list" where
  "PushUp_requiredLandmarks poseResult =
     [getLandmark poseResult LEFT_SHOULDER, getLandmark poseResult RIGHT_SHOULDER,
      getLandmark poseResult LEFT_ELBOW, getLandmark poseResult RIGHT_ELBOW,
      getLandmark poseResult LEFT_WRIST, getLandmark poseResult RIGHT_WRIST,
      getLandmark poseResult LEFT_HIP, getLandmark poseResult RIGHT_HIP]"

text \<open>
  The local constants of \<open>validate\<close> that the phase machine reads, as functions of the
  frame; the arm angles are computed alike by the push-up and the chin-up validator.  They are evaluated only after every required landmark was found reliable, so
  \<open>the\<close> is the non-null assertion \<open>!\<close> of the source.
\<close>

definition frame_leftArmAngle :: "PoseResult \<Rightarrow> num" where
  "frame_leftArmAngle p =
     calculateAngle (the (getLandmark p LEFT_SHOULDER)) (the (getLandmark p LEFT_ELBOW))
       (the (getLandmark p LEFT_WRIST))"

definition frame_rightArmAngle :: "PoseResult \<Rightarrow> num" where
  "frame_rightArmAngle p =
     calculateAngle (the (getLandmark p RIGHT_SHOULDER)) (the (getLandmark p RIGHT_ELBOW))
       (the (getLandmark p RIGHT_WRIST))"

definition frame_avgArmAngle :: "PoseResult \<Rightarrow> num" where
  "frame_avgArmAngle p = avgAngle (frame_leftArmAngle p) (frame_rightArmAngle p)"

definition PushUp_bodyAlignmentScore :: "PoseResult \<Rightarrow> quotient" where
  "PushUp_bodyAlignmentScore p =
     PushUp_checkBodyAlignment (the (getLandmark p LEFT_SHOULDER))
       (the (getLandmark p RIGHT_SHOULDER)) (the (getLandmark p LEFT_HIP))
       (the (getLandmark p RIGHT_HIP))"

definition frame_armSymmetryScore :: "PoseResult \<Rightarrow> num" where
  "frame_armSymmetryScore p = checkArmSymmetry (frame_leftArmAngle p) (frame_rightArmAngle p)"

definition PushUp_formCriteria :: "PoseResult \<Rightarrow> bool list" where
  "PushUp_formCriteria p =
     [q_less (round64 0.7) (PushUp_bodyAlignmentScore p),
      num_gt (frame_armSymmetryScore p) 0.7,
      num_gt (frame_avgArmAngle p) 30 \<and> num_lt (frame_avgArmAngle p) 180]"

definition PushUp_formScore :: "PoseResult \<Rightarrow> real" where
  "PushUp_formScore p = calculateFormScore (PushUp_formCriteria p)"

definition PushUp_countRep ::
  "num \<Rightarrow> bool \<Rightarrow> int \<Rightarrow> PushUpValidator \<Rightarrow> string list \<times> bool \<times> PushUpValidator" where
  \<comment> \<open>the block \<open>State machine for repetition counting\<close> of \<open>validate\<close>: the feedback it
      pushes, \<open>completedRep\<close> and the state; \<open>now\<close> is the reading of \<open>Date.now()\<close> taken
      by \<open>hasEnoughTimePassed\<close>\<close>
  "PushUp_countRep avgArmAngle valid now s =
     (let isCurrentlyDown = num_lt avgArmAngle pu_minArmAngle;
          isCurrentlyUp = num_gt avgArmAngle pu_maxArmAngle
      in if isCurrentlyDown \<and> \<not> pu_isInDownPosition s \<and> valid then
           ([''Good down position!''], False,
            s\<lparr>pu_isInDownPosition := True, pu_isInUpPosition := False\<rparr>)
         else if isCurrentlyUp \<and> pu_isInDownPosition s \<and> \<not> pu_isInUpPosition s \<and> valid
         then
           (let sa = s\<lparr>pu_isInUpPosition := True\<rparr>;
                (ok, sb) = hasEnoughTimePassed now 1000 sa
            in if ok then
                 (let sc = sb\<lparr>repCount := repCount sb + 1\<rparr>
                  in ([''Great push-up! Count: '' @ show_int (repCount sc)], True,
                      sc\<lparr>pu_isInDownPosition := False, pu_isInUpPosition := False\<rparr>))
               else ([], False, sb))
         else ([], False, s))"

definition PushUp_validate ::
  "int \<Rightarrow> PoseResult \<Rightarrow> PushUpValidator \<Rightarrow> ExerciseValidation \<times> PushUpValidator" where
  "PushUp_validate now poseResult s =
     (if confidence poseResult < 0.6 then
        (invalidResult ''Please position yourself clearly in the camera view'', s)
      else if \<not> list_all isLandmarkReliable (PushUp_requiredLandmarks poseResult) then
        (invalidResult ''Please ensure your upper body is fully visible'', s)
      else
        let avgArmAngle = frame_avgArmAngle poseResult;
            formScore = PushUp_formScore poseResult;
            isValid = (formScore > 0.6);
            fb1 = (if q_le (PushUp_bodyAlignmentScore poseResult) (round64 0.7)
                   then [''Keep your body straight - align shoulders with hips''] else []);
            fb2 = (if num_le (frame_armSymmetryScore poseResult) 0.7
                   then [''Keep both arms moving symmetrically''] else []);
            (fb3, completedRep, s1) = PushUp_countRep avgArmAngle isValid now s;
            fb4 = (if isValid then
                     (if num_gt avgArmAngle pu_maxArmAngle then [''Lower yourself down'']
                      else if num_lt avgArmAngle pu_minArmAngle then [''Push back up'']
                      else [''Good form - keep going!''])
                   else []);
            (stable, s2) = addToValidationHistory isValid s1
        in (\<lparr>isValid = stable, feedback = fb1 @ fb2 @ fb3 @ fb4,
             completedRep = completedRep, formScore = formScore\<rparr>, s2))"

definition PushUp_reset :: "PushUpValidator \<Rightarrow> PushUpValidator" where
  "PushUp_reset s =
     (ExerciseValidator_reset s)\<lparr>pu_isInDownPosition := False, pu_isInUpPosition := False\<rparr>"

definition PushUp_getCurrentPhase :: "PushUpValidator \<Rightarrow> string" where
  "PushUp_getCurrentPhase s =
     (if pu_isInDownPosition s then ''Down Position''
      else if pu_isInUpPosition s then ''Up Position''
      else ''Transitioning'')"

section \<open>ChinUpValidator.ts\<close>

record ChinUpValidator = ExerciseValidator +
  cu_isInDownPosition :: bool
  cu_isInUpPosition :: bool

definition cu_minArmAngle :: real where "cu_minArmAngle = 130"
definition cu_maxArmAngle :: real where "cu_maxArmAngle = 70"
definition chinOverBarThreshold :: quotient where
  "chinOverBarThreshold = round64 0.05"

definition ChinUp_new :: ChinUpValidator where
  "ChinUp_new =
     \<lparr>repCount = 0, isInPosition = False, lastValidationTime = 0, validationHistory = [],
      cu_isInDownPosition = False, cu_isInUpPosition = False\<rparr>"

definition checkBodyPosition ::
  "Landmark3D \<Rightarrow> Landmark3D \<Rightarrow> Landmark3D \<Rightarrow> Landmark3D \<Rightarrow> quotient" where
  "checkBodyPosition leftShoulder rightShoulder leftHip rightHip =
     (let shoulderCenterX =
            q_div (q_add (Fin (lx leftShoulder)) (Fin (lx rightShoulder))) (Fin 2);
          hipCenterX = q_div (q_add (Fin (lx leftHip)) (Fin (lx rightHip))) (Fin 2);
          horizontalDifference = q_abs (q_sub shoulderCenterX hipCenterX);
          alignmentScore =
            q_max (Fin 0) (q_sub (Fin 1) (q_div horizontalDifference (round64 0.1)))
      in q_min (Fin 1) alignmentScore)"

definition checkChinOverBar :: "Landmark3D \<Rightarrow> Landmark3D \<Rightarrow> Landmark3D \<Rightarrow> quotient" where
  "checkChinOverBar nose leftWrist rightWrist =
     (let wristCenterY = q_div (q_add (Fin (ly leftWrist)) (Fin (ly rightWrist))) (Fin 2);
          noseAboveWrists = q_less (Fin (ly nose)) wristCenterY
      in if \<not> noseAboveWrists then Fin 0
         else
           let distanceAboveBar = q_sub wristCenterY (Fin (ly nose));
               chinOverBarScore =
                 q_min (Fin 1) (q_div distanceAboveBar chinOverBarThreshold)
           in chinOverBarScore)"

definition ChinUp_requiredLandmarks :: "PoseResult \<Rightarrow> Landmark3D option list" where
  "ChinUp_requiredLandmarks poseResult =
     [getLandmark poseResult NOSE,
      getLandmark poseResult LEFT_SHOULDER, getLandmark poseResult RIGHT_SHOULDER,
      getLandmark poseResult LEFT_ELBOW, getLandmark poseResult RIGHT_ELBOW,
      getLandmark poseResult LEFT_WRIST, getLandmark poseResult RIGHT_WRIST,
      getLandmark poseResult LEFT_HIP, getLandmark poseResult RIGHT_HIP]"

definition ChinUp_bodyPositionScore :: "PoseResult \<Rightarrow> quotient" where
  "ChinUp_bodyPositionScore p =
     checkBodyPosition (the (getLandmark p LEFT_SHOULDER)) (the (getLandmark p RIGHT_SHOULDER))
       (the (getLandmark p LEFT_HIP)) (the (getLandmark p RIGHT_HIP))"

definition ChinUp_chinOverBarScore :: "PoseResult \<Rightarrow> quotient" where
  "ChinUp_chinOverBarScore p =
     checkChinOverBar (the (getLandmark p NOSE)) (the (getLandmark p LEFT_WRIST))
       (the (getLandmark p RIGHT_WRIST))"

definition ChinUp_formCriteria :: "PoseResult \<Rightarrow> bool list" where
  "ChinUp_formCriteria p =
     [q_less (round64 0.7) (ChinUp_bodyPositionScore p),
      num_gt (frame_armSymmetryScore p) 0.7,
      num_gt (frame_avgArmAngle p) 30 \<and> num_lt (frame_avgArmAngle p) 180]"

definition ChinUp_countRep ::
  "num \<Rightarrow> quotient \<Rightarrow> bool \<Rightarrow> int \<Rightarrow> ChinUpValidator
     \<Rightarrow> string list \<times> bool \<times> ChinUpValidator"
  where
  \<comment> \<open>the block \<open>State machine for repetition counting\<close> of \<open>validate\<close>\<close>
  "ChinUp_countRep avgArmAngle chinOverBarScore valid now s =
     (let isCurrentlyDown = num_gt avgArmAngle cu_minArmAngle;
          isCurrentlyUp =
            (num_lt avgArmAngle cu_maxArmAngle \<and> q_less (round64 0.7) chinOverBarScore)
      in if isCurrentlyDown \<and> \<not> cu_isInDownPosition s \<and> \<not> cu_isInUpPosition s then
           ([''Good starting position!''], False, s\<lparr>cu_isInDownPosition := True\<rparr>)
         else if isCurrentlyUp \<and> cu_isInDownPosition s \<and> \<not> cu_isInUpPosition s \<and> valid
         then
           ([''Great! Chin over the bar!''], False, s\<lparr>cu_isInUpPosition := True\<rparr>)
         else if isCurrentlyDown \<and> cu_isInDownPosition s \<and> cu_isInUpPosition s \<and> valid
         then
           (let (ok, sb) = hasEnoughTimePassed now 1000 s
            in if ok then
                 (let sc = sb\<lparr>repCount := repCount sb + 1\<rparr>
                  in ([''Great chin-up! Count: '' @ show_int (repCount sc)], True,
                      sc\<lparr>cu_isInDownPosition := True, cu_isInUpPosition := False\<rparr>))
               else ([], False, sb))
         else ([], False, s))"

definition ChinUp_validate ::
  "int \<Rightarrow> PoseResult \<Rightarrow> ChinUpValidator \<Rightarrow> ExerciseValidation \<times> ChinUpValidator" where
  "ChinUp_validate now poseResult s =
     (if confidence poseResult < 0.6 then
        (invalidResult ''Please position yourself clearly in the camera view'', s)
      else if \<not> list_all isLandmarkReliable (ChinUp_requiredLandmarks poseResult) then
        (invalidResult ''Please ensure your upper body is fully visible'', s)
      else
        let avgArmAngle = frame_avgArmAngle poseResult;
            chinOverBarScore = ChinUp_chinOverBarScore poseResult;
            formScore = calculateFormScore (ChinUp_formCriteria poseResult);
            isValid = (formScore > 0.6);
            fb1 = (if q_le (ChinUp_bodyPositionScore poseResult) (round64 0.7)
                   then [''Keep your body straight - avoid swinging''] else []);
            fb2 = (if num_le (frame_armSymmetryScore poseResult) 0.7
                   then [''Keep both arms moving symmetrically''] else []);
            (fb3, completedRep, s1) =
              ChinUp_countRep avgArmAngle chinOverBarScore isValid now s;
            fb4 = (if isValid then
                     (if num_gt avgArmAngle cu_minArmAngle then [''Pull yourself up'']
                      else if num_lt avgArmAngle cu_maxArmAngle then [''Lower yourself down'']
                      else [''Good form - keep going!''])
                   else []);
            (stable, s2) = addToValidationHistory isValid s1
        in (\<lparr>isValid = stable, feedback = fb1 @ fb2 @ fb3 @ fb4,
             completedRep = completedRep, formScore = formScore\<rparr>, s2))"

definition ChinUp_reset :: "ChinUpValidator \<Rightarrow> ChinUpValidator" where
  "ChinUp_reset s =
     (ExerciseValidator_reset s)\<lparr>cu_isInDownPosition := False, cu_isInUpPosition := False\<rparr>"

section \<open>FormChecker.ts\<close>

definition calculateBodyAngle :: "Landmark3D \<Rightarrow> Landmark3D \<Rightarrow> Landmark3D \<Rightarrow> num" where
  "calculateBodyAngle shoulder hip ankle =
     (let svx = lx shoulder - lx hip; svy = ly shoulder - ly hip;
          avx = lx ankle - lx hip; avy = ly ankle - ly hip;
          dotProduct = svx * avx + svy * avy;
          shoulderMagnitude = sqrt (svx ^ 2 + svy ^ 2);
          ankleMagnitude = sqrt (avx ^ 2 + avy ^ 2);
          cosAngle = js_div dotProduct (shoulderMagnitude * ankleMagnitude);
          angleRad = js_acos (js_clamp cosAngle)
      in map_option (\<lambda>r. r * (180 / pi)) angleRad)"

definition pointToLineDistance :: "Landmark3D \<Rightarrow> Landmark3D \<Rightarrow> Landmark3D \<Rightarrow> real" where
  "pointToLineDistance point lineStart lineEnd =
     (let A = lx point - lx lineStart; B = ly point - ly lineStart;
          C = lx lineEnd - lx lineStart; D = ly lineEnd - ly lineStart;
          dot = A * C + B * D;
          lenSq = C * C + D * D
      in if lenSq = 0 then sqrt (A * A + B * B)
         else
           let param = dot / lenSq;
               (xx, yy) =
                 (if param < 0 then (lx lineStart, ly lineStart)
                  else if param > 1 then (lx lineEnd, ly lineEnd)
                  else (lx lineStart + param * C, ly lineStart + param * D));
               dx = lx point - xx; dy = ly point - yy
           in sqrt (dx * dx + dy * dy))"

definition areLandmarksAligned :: "Landmark3D list \<Rightarrow> real \<Rightarrow> bool" where
  \<comment> \<open>the loop runs over the indices \<open>1 .. length - 2\<close>\<close>
  "areLandmarksAligned ls threshold =
     (if length ls < 2 then True
      else
        let first = hd ls; lst = last ls
        in list_all (\<lambda>current. \<not> pointToLineDistance current first lst > threshold)
             (take (length ls - 2) (drop 1 ls)))"

definition keyLandmarks :: "nat list" where
  "keyLandmarks = [11, 12, 13, 14, 15, 16, 23, 24]"

definition pairMovements :: "PoseResult \<Rightarrow> PoseResult \<Rightarrow> real list" where
  \<comment> \<open>the movements the inner loop adds up for one pair of consecutive poses\<close>
  "pairMovements prevPose currPose =
     concat (map (\<lambda>landmarkIndex.
        (case (getLandmark prevPose landmarkIndex, getLandmark currPose landmarkIndex) of
           (Some prevLandmark, Some currLandmark) \<Rightarrow>
             [sqrt ((lx currLandmark - lx prevLandmark) ^ 2
                    + (ly currLandmark - ly prevLandmark) ^ 2)]
         | _ \<Rightarrow> [])) keyLandmarks)"

definition calculatePoseStability :: "PoseResult list \<Rightarrow> real" where
  "calculatePoseStability poseResults =
     (if length poseResults < 2 then 0
      else
        let movements = concat (map (\<lambda>(prevPose, currPose). pairMovements prevPose currPose)
                                  (zip poseResults (tl poseResults)));
            totalMovement = sum_list movements;
            comparisonCount = length movements
        in if comparisonCount = 0 then 0
           else
             let averageMovement = totalMovement / real comparisonCount;
                 stabilityScore = max 0 (1 - averageMovement * 10)
             in min 1 stabilityScore)"

section \<open>PlankValidator.ts\<close>

record PlankValidator = ExerciseValidator +
  plankStartTime :: int
  plankDuration :: int
  isInPlankPosition :: bool
  lastStableTime :: int
  recentPoses :: "PoseResult list"
  nextMilestoneIndex :: nat

definition maxRecentPoses :: nat where "maxRecentPoses = 10"
definition stabilityThreshold :: real where "stabilityThreshold = 0.7"
definition pl_bodyAlignmentThreshold :: real where "pl_bodyAlignmentThreshold = 0.1"

definition milestoneDurations :: "int list" where
  "milestoneDurations = [5000, 10000, 20000, 30000, 60000]"

definition Plank_new :: PlankValidator where
  "Plank_new =
     \<lparr>repCount = 0, isInPosition = False, lastValidationTime = 0, validationHistory = [],
      plankStartTime = 0, plankDuration = 0, isInPlankPosition = False, lastStableTime = 0,
      recentPoses = [], nextMilestoneIndex = 0\<rparr>"

definition addToRecentPoses :: "PoseResult \<Rightarrow> PlankValidator \<Rightarrow> PlankValidator" where
  "addToRecentPoses poseResult s =
     (let r = recentPoses s @ [poseResult]
      in s\<lparr>recentPoses := (if length r > maxRecentPoses then tl r else r)\<rparr>)"

definition handleInvalidPose :: "int \<Rightarrow> PlankValidator \<Rightarrow> PlankValidator" where
  \<comment> \<open>\<open>now\<close> is read from \<open>Date.now()\<close> only when the validator is in position\<close>
  "handleInvalidPose now s =
     (if isInPlankPosition s then
        (if now - lastStableTime s > 1000 then s\<lparr>isInPlankPosition := False\<rparr> else s)
      else s)"

definition center :: "Landmark3D \<Rightarrow> Landmark3D \<Rightarrow> Landmark3D" where
  \<comment> \<open>the object literal of a centre point: no visibility\<close>
  "center a b =
     \<lparr>lx = (lx a + lx b) / 2, ly = (ly a + ly b) / 2, lz = (lz a + lz b) / 2,
      visibility = None\<rparr>"

definition Plank_checkBodyAlignment ::
  "Landmark3D \<Rightarrow> Landmark3D \<Rightarrow> Landmark3D \<Rightarrow> Landmark3D \<Rightarrow> Landmark3D \<Rightarrow> Landmark3D \<Rightarrow> num"
  where
  "Plank_checkBodyAlignment leftShoulder rightShoulder leftHip rightHip leftAnkle rightAnkle =
     (let shoulderCenter = center leftShoulder rightShoulder;
          hipCenter = center leftHip rightHip;
          ankleCenter = center leftAnkle rightAnkle;
          isAligned = areLandmarksAligned [shoulderCenter, hipCenter, ankleCenter]
                        pl_bodyAlignmentThreshold
      in if isAligned then Some 1.0
         else
           map_option (\<lambda>distance.
               let normalizedDistance = min (distance / 30) 1
               in max 0 (1 - normalizedDistance))
             (calculateBodyAngle shoulderCenter hipCenter ankleCenter))"

definition checkElbowPosition ::
  "Landmark3D \<Rightarrow> Landmark3D \<Rightarrow> Landmark3D \<Rightarrow> Landmark3D \<Rightarrow> Landmark3D \<Rightarrow> Landmark3D \<Rightarrow> real"
  where
  "checkElbowPosition leftShoulder leftElbow leftWrist rightShoulder rightElbow rightWrist =
     (let leftAlignmentX = \<bar>lx leftElbow - lx leftShoulder\<bar>;
          rightAlignmentX = \<bar>lx rightElbow - lx rightShoulder\<bar>;
          leftScore = max 0 (1 - leftAlignmentX / 0.1);
          rightScore = max 0 (1 - rightAlignmentX / 0.1)
      in (leftScore + rightScore) / 2)"

definition checkHipPosition ::
  "Landmark3D \<Rightarrow> Landmark3D \<Rightarrow> Landmark3D \<Rightarrow> Landmark3D \<Rightarrow> Landmark3D \<Rightarrow> Landmark3D \<Rightarrow> num"
  where
  "checkHipPosition leftShoulder rightShoulder leftHip rightHip leftAnkle rightAnkle =
     (let shoulderCenter = center leftShoulder rightShoulder;
          hipCenter = center leftHip rightHip;
          ankleCenter = center leftAnkle rightAnkle;
          shx = lx shoulderCenter - lx hipCenter; shy = ly shoulderCenter - ly hipCenter;
          ahx = lx ankleCenter - lx hipCenter; ahy = ly ankleCenter - ly hipCenter;
          dotProduct = shx * ahx + shy * ahy;
          shoulderToHipMag = sqrt (shx ^ 2 + shy ^ 2);
          ankleToHipMag = sqrt (ahx ^ 2 + ahy ^ 2);
          cosAngle = js_div dotProduct (shoulderToHipMag * ankleToHipMag);
          angleRad = js_acos (js_clamp cosAngle)
      in map_option (\<lambda>r.
           let angleDeg = r * (180 / pi);
               deviation = \<bar>180 - angleDeg\<bar>
           in max 0 (1 - deviation / 30)) angleRad)"

definition Plank_requiredLandmarks :: "PoseResult \<Rightarrow> Landmark3D option list" where
  "Plank_requiredLandmarks poseResult =
     [getLandmark poseResult LEFT_SHOULDER, getLandmark poseResult RIGHT_SHOULDER,
      getLandmark poseResult LEFT_ELBOW, getLandmark poseResult RIGHT_ELBOW,
      getLandmark poseResult LEFT_WRIST, getLandmark poseResult RIGHT_WRIST,
      getLandmark poseResult LEFT_HIP, getLandmark poseResult RIGHT_HIP,
      getLandmark poseResult LEFT_KNEE, getLandmark poseResult RIGHT_KNEE,
      getLandmark poseResult LEFT_ANKLE, getLandmark poseResult RIGHT_ANKLE]"

definition Plank_bodyAlignmentScore :: "PoseResult \<Rightarrow> num" where
  "Plank_bodyAlignmentScore p =
     Plank_checkBodyAlignment (the (getLandmark p LEFT_SHOULDER))
       (the (getLandmark p RIGHT_SHOULDER)) (the (getLandmark p LEFT_HIP))
       (the (getLandmark p RIGHT_HIP)) (the (getLandmark p LEFT_ANKLE))
       (the (getLandmark p RIGHT_ANKLE))"

definition Plank_elbowPositionScore :: "PoseResult \<Rightarrow> real" where
  "Plank_elbowPositionScore p =
     checkElbowPosition (the (getLandmark p LEFT_SHOULDER)) (the (getLandmark p LEFT_ELBOW))
       (the (getLandmark p LEFT_WRIST)) (the (getLandmark p RIGHT_SHOULDER))
       (the (getLandmark p RIGHT_ELBOW)) (the (getLandmark p RIGHT_WRIST))"

definition Plank_hipPositionScore :: "PoseResult \<Rightarrow> num" where
  "Plank_hipPositionScore p =
     checkHipPosition (the (getLandmark p LEFT_SHOULDER)) (the (getLandmark p RIGHT_SHOULDER))
       (the (getLandmark p LEFT_HIP)) (the (getLandmark p RIGHT_HIP))
       (the (getLandmark p LEFT_ANKLE)) (the (getLandmark p RIGHT_ANKLE))"

definition Plank_formCriteria :: "PoseResult list \<Rightarrow> PoseResult \<Rightarrow> bool list" where
  \<comment> \<open>\<open>poses\<close> is \<open>this.recentPoses\<close>, the frame already added\<close>
  "Plank_formCriteria poses p =
     [num_gt (Plank_bodyAlignmentScore p) 0.7,
      Plank_elbowPositionScore p > 0.7,
      num_gt (Plank_hipPositionScore p) 0.7,
      calculatePoseStability poses > stabilityThreshold]"

definition Plank_track ::
  "bool \<Rightarrow> int \<Rightarrow> int \<Rightarrow> PlankValidator \<Rightarrow> string list \<times> bool \<times> PlankValidator" where
  \<comment> \<open>the block \<open>Handle plank state\<close> of \<open>validate\<close>: the feedback it pushes,
      \<open>completedRep\<close> and the state; \<open>now1\<close> and \<open>now2\<close> are the first and the second
      reading of \<open>Date.now()\<close>\<close>
  "Plank_track valid now1 now2 s =
     (if valid then
        (if \<not> isInPlankPosition s then
           ([''Good plank position! Hold steady...''], False,
            s\<lparr>isInPlankPosition := True, plankStartTime := now1\<rparr>)
         else
           let sa = s\<lparr>plankDuration := now1 - plankStartTime s, lastStableTime := now1\<rparr>;
               durationSeconds = plankDuration sa div 1000;
               fbd = ''Great form! Duration: '' @ show_int durationSeconds @ '' seconds''
           in if nextMilestoneIndex sa < length milestoneDurations
                 \<and> plankDuration sa \<ge> milestoneDurations ! nextMilestoneIndex sa
              then
                ([fbd, ''Milestone reached: ''
                       @ show_int (milestoneDurations ! nextMilestoneIndex sa div 1000)
                       @ '' seconds!''],
                 True,
                 sa\<lparr>repCount := repCount sa + 1,
                    nextMilestoneIndex := nextMilestoneIndex sa + 1\<rparr>)
              else ([fbd], False, sa))
      else
        (if isInPlankPosition s \<and> now1 - lastStableTime s > 1000 then
           ([''Plank position lost. Reset and try again.''], False, handleInvalidPose now2 s)
         else ([], False, s)))"

definition Plank_validate ::
  "int \<Rightarrow> int \<Rightarrow> PoseResult \<Rightarrow> PlankValidator \<Rightarrow> ExerciseValidation \<times> PlankValidator" where
  \<comment> \<open>on the two early exits \<open>handleInvalidPose\<close> takes the first reading of the clock\<close>
  "Plank_validate now1 now2 poseResult s0 =
     (let s = addToRecentPoses poseResult s0
      in if confidence poseResult < 0.6 then
           (invalidResult ''Please position yourself clearly in the camera view'',
            handleInvalidPose now1 s)
         else if \<not> list_all isLandmarkReliable (Plank_requiredLandmarks poseResult) then
           (invalidResult ''Please ensure your full body is visible'',
            handleInvalidPose now1 s)
         else
           let stabilityScore = calculatePoseStability (recentPoses s);
               formScore = calculateFormScore (Plank_formCriteria (recentPoses s) poseResult);
               isValid = (formScore > 0.6);
               fb1 = (if num_le (Plank_bodyAlignmentScore poseResult) 0.7
                      then [''Keep your body in a straight line from head to heels'']
                      else []);
               fb2 = (if Plank_elbowPositionScore poseResult \<le> 0.7
                      then [''Position your elbows directly under your shoulders'']
                      else []);
               fb3 = (if num_le (Plank_hipPositionScore poseResult) 0.7
                      then [''Keep your hips level - don't sag or pike''] else []);
               fb4 = (if stabilityScore \<le> stabilityThreshold
                      then [''Try to hold still with minimal movement''] else []);
               (fb5, completedRep, s1) = Plank_track isValid now1 now2 s;
               (stable, s2) = addToValidationHistory isValid s1
           in (\<lparr>isValid = stable, feedback = fb1 @ fb2 @ fb3 @ fb4 @ fb5,
                completedRep = completedRep, formScore = formScore\<rparr>, s2))"

definition Plank_reset :: "PlankValidator \<Rightarrow> PlankValidator" where
  "Plank_reset s =
     (ExerciseValidator_reset s)
       \<lparr>plankStartTime := 0, plankDuration := 0, isInPlankPosition := False,
        lastStableTime := 0, recentPoses := [], nextMilestoneIndex := 0\<rparr>"

section \<open>Sessions: a validator driven over a sequence of frames\<close>

text \<open>
  The session layer calls \<open>validate\<close> once per frame.  A call is given the frame and the
  readings \<open>Date.now()\<close> returns while it runs; a session returns the results in order
  and the final state.
\<close>

fun PushUp_run ::
  "(int \<times> PoseResult) list \<Rightarrow> PushUpValidator \<Rightarrow> ExerciseValidation list \<times> PushUpValidator"
  where
  "PushUp_run [] s = ([], s)"
| "PushUp_run ((now, p) # fs) s =
     (let (r, s1) = PushUp_validate now p s;
          (rs, s2) = PushUp_run fs s1
      in (r # rs, s2))"

fun ChinUp_run ::
  "(int \<times> PoseResult) list \<Rightarrow> ChinUpValidator \<Rightarrow> ExerciseValidation list \<times> ChinUpValidator"
  where
  "ChinUp_run [] s = ([], s)"
| "ChinUp_run ((now, p) # fs) s =
     (let (r, s1) = ChinUp_validate now p s;
          (rs, s2) = ChinUp_run fs s1
      in (r # rs, s2))"

fun Plank_run ::
  "(int \<times> int \<times> PoseResult) list \<Rightarrow> PlankValidator
     \<Rightarrow> ExerciseValidation list \<times> PlankValidator"
  where
  "Plank_run [] s = ([], s)"
| "Plank_run ((now1, now2, p) # fs) s =
     (let (r, s1) = Plank_validate now1 now2 p s;
          (rs, s2) = Plank_run fs s1
      in (r # rs, s2))"

section \<open>Concrete frames\<close>

definition lm :: "real \<Rightarrow> real \<Rightarrow> Landmark3D" where
  \<comment> \<open>a clearly visible landmark in the image plane\<close>
  "lm a b = \<lparr>lx = a, ly = b, lz = 0, visibility = Some 0.9\<rparr>"

definition blankLandmarks :: "Landmark3D list" where
  "blankLandmarks = replicate 33 (lm 0.5 0.5)"

definition armPose :: "real \<Rightarrow> real \<Rightarrow> PoseResult" where
  \<comment> \<open>both elbows bent to \<open>deg\<close> degrees, shoulders level with the hips\<close>
  "armPose deg conf =
     (let t = deg * pi / 180
      in \<lparr>landmarks = blankLandmarks
            [11 := lm 0.4 0.5, 12 := lm 0.8 0.5,
             13 := lm 0.3 0.5, 14 := lm 0.7 0.5,
             15 := lm (0.3 + cos t / 10) (0.5 + sin t / 10),
             16 := lm (0.7 + cos t / 10) (0.5 + sin t / 10),
             23 := lm 0.4 0.5, 24 := lm 0.8 0.5],
          worldLandmarks = [], confidence = conf, timestamp = 0\<rparr>)"

definition plankPose :: "real \<Rightarrow> real \<Rightarrow> real \<Rightarrow> real \<Rightarrow> PoseResult" where
  \<comment> \<open>shoulders above the hips; the elbows \<open>e\<close> beside the shoulders, the ankles centred
      at \<open>(ax, ay)\<close>\<close>
  "plankPose e ax ay conf =
     \<lparr>landmarks = blankLandmarks
        [11 := lm (-0.15) 0.5, 12 := lm 0.15 0.5,
         13 := lm (-0.15 - e) 0.5, 14 := lm (0.15 + e) 0.5,
         15 := lm (-0.15) 0.5, 16 := lm 0.15 0.5,
         23 := lm (-0.15) 0.8, 24 := lm 0.15 0.8,
         25 := lm (-0.15) 1.1, 26 := lm 0.15 1.1,
         27 := lm (ax - 0.15) ay, 28 := lm (ax + 0.15) ay],
      worldLandmarks = [], confidence = conf, timestamp = 0\<rparr>"

definition downPose :: PoseResult where
  \<comment> \<open>the scripted down frame: both arm angles 60 degrees\<close>
  "downPose = armPose 60 0.9"

definition upPose :: PoseResult where
  \<comment> \<open>the scripted up frame: both arm angles 170 degrees\<close>
  "upPose = armPose 170 0.9"

definition goodPlank :: PoseResult where
  "goodPlank = plankPose 0 0 1.4 0.9"

definition elbowsOut :: PoseResult where
  \<comment> \<open>a straight body with the elbows 0.2 beside the shoulders\<close>
  "elbowsOut = plankPose 0.2 0 1.4 0.9"

definition sagging :: PoseResult where
  \<comment> \<open>the ankles level with the hips: a right angle at the hip\<close>
  "sagging = plankPose 0 0.4 0.8 0.9"

definition unclear :: PoseResult where
  \<comment> \<open>the good plank, detected with confidence 0.3\<close>
  "unclear = plankPose 0 0 1.4 0.3"

section \<open>What a validator makes of a frame\<close>

text \<open>
  Names for the conditions \<open>validate\<close> branches on: a frame is \<^emph>\<open>visible\<close> when it passes
  the confidence check and the landmark check, and \<^emph>\<open>judged valid\<close> when, in addition, the
  local \<open>isValid\<close> (\<open>formScore > 0.6\<close>, before smoothing) is true.  The plank's judgement
  depends on the poses recorded so far, through the stability score.
\<close>

definition PushUp_visible :: "PoseResult \<Rightarrow> bool" where
  "PushUp_visible p =
     (\<not> confidence p < 0.6 \<and> list_all isLandmarkReliable (PushUp_requiredLandmarks p))"

definition PushUp_judgedValid :: "PoseResult \<Rightarrow> bool" where
  "PushUp_judgedValid p = (PushUp_visible p \<and> PushUp_formScore p > 0.6)"

definition Plank_visible :: "PoseResult \<Rightarrow> bool" where
  "Plank_visible p =
     (\<not> confidence p < 0.6 \<and> list_all isLandmarkReliable (Plank_requiredLandmarks p))"

definition Plank_criteria :: "PoseResult \<Rightarrow> PlankValidator \<Rightarrow> bool list" where
  \<comment> \<open>\<open>formCriteria\<close> as \<open>validate\<close> computes it for frame \<open>p\<close> in state \<open>s\<close>\<close>
  "Plank_criteria p s = Plank_formCriteria (recentPoses (addToRecentPoses p s)) p"

definition Plank_judgedValid :: "PoseResult \<Rightarrow> PlankValidator \<Rightarrow> bool" where
  "Plank_judgedValid p s =
     (Plank_visible p \<and> calculateFormScore (Plank_criteria p s) > 0.6)"

definition countTrue :: "bool list \<Rightarrow> nat" where
  "countTrue bs = length (filter (\<lambda>b. b) bs)"

fun Plank_validHold :: "(int \<times> int \<times> PoseResult) list \<Rightarrow> PlankValidator \<Rightarrow> bool" where
  \<comment> \<open>a continuous hold: every frame of the run is judged valid when it is reached\<close>
  "Plank_validHold [] s = True"
| "Plank_validHold ((now1, now2, p) # fs) s =
     (Plank_judgedValid p s \<and> Plank_validHold fs (snd (Plank_validate now1 now2 p s)))"

fun Plank_invalidStretch :: "(int \<times> int \<times> PoseResult) list \<Rightarrow> PlankValidator \<Rightarrow> bool" where
  \<comment> \<open>a contiguous stretch of frames none of which is judged valid, under a clock that
      does not run backwards within a call\<close>
  "Plank_invalidStretch [] s = True"
| "Plank_invalidStretch ((now1, now2, p) # fs) s =
     (\<not> Plank_judgedValid p s \<and> now1 \<le> now2
      \<and> Plank_invalidStretch fs (snd (Plank_validate now1 now2 p s)))"

definition readings :: "(int \<times> int \<times> PoseResult) list \<Rightarrow> int list" where
  \<comment> \<open>the first clock reading of every call of a plank session\<close>
  "readings fs = map fst fs"

definition forgetTimestamps :: "PlankValidator \<Rightarrow> PlankValidator" where
  \<comment> \<open>the state with the \<open>timestamp\<close> fields of the recorded poses blanked\<close>
  "forgetTimestamps s = s\<lparr>recentPoses := map (\<lambda>q. q\<lparr>timestamp := 0\<rparr>) (recentPoses s)\<rparr>"

section \<open>Basic facts\<close>

subsection \<open>Binary64 rounding\<close>

lemma round_even_ge: "of_int N \<le> z \<Longrightarrow> N \<le> round_even z"
proof -
  assume "of_int N \<le> z"
  then have "N \<le> \<lfloor>z\<rfloor>" by (simp add: le_floor_iff)
  moreover have "\<lfloor>z\<rfloor> \<le> round_even z" by (simp add: round_even_def Let_def)
  ultimately show ?thesis by simp
qed

lemma quantum_pos: "0 < quantum x" by (simp add: quantum_def)

lemma floor_log2:
  assumes "0 < x"
  shows "2 powi \<lfloor>log 2 x\<rfloor> \<le> x" "x < 2 powi (\<lfloor>log 2 x\<rfloor> + 1)"
proof -
  have "2 powr real_of_int \<lfloor>log 2 x\<rfloor> \<le> x \<and> x < 2 powr (real_of_int \<lfloor>log 2 x\<rfloor> + 1)"
    using floor_log_eq_powr_iff [of x 2 "\<lfloor>log 2 x\<rfloor>"] assms by simp
  then show "2 powi \<lfloor>log 2 x\<rfloor> \<le> x" "x < 2 powi (\<lfloor>log 2 x\<rfloor> + 1)"
    using powr_real_of_int' [of 2 "\<lfloor>log 2 x\<rfloor>"] powr_real_of_int' [of 2 "\<lfloor>log 2 x\<rfloor> + 1"]
    by simp_all
qed

lemma floor_log2_eq:
  assumes "2 powi k \<le> x" "x < 2 powi (k + 1)"
  shows "\<lfloor>log 2 x\<rfloor> = k"
proof -
  have "0 < x" using assms(1) zero_less_power_int [of "2::real" k] by linarith
  moreover have "2 powr real_of_int k \<le> x" "x < 2 powr (real_of_int k + 1)"
    using assms powr_real_of_int' [of 2 k] powr_real_of_int' [of 2 "k + 1"] by simp_all
  ultimately show ?thesis
    using floor_log_eq_powr_iff [of x 2 k] by simp
qed

text \<open>Rounding never falls below a power of two that the argument has reached.\<close>

lemma round64_ge_power:
  assumes x: "2 powi k \<le> x" and k: "emin \<le> k"
  shows "round64 x = PosInf \<or> (\<exists>r. round64 x = Fin r \<and> 2 powi k \<le> r)"
proof -
  have xpos: "0 < x" using x zero_less_power_int [of "2::real" k] by linarith
  define K where "K = \<lfloor>log 2 \<bar>x\<bar>\<rfloor>"
  define e where "e = max (K - 52) emin"
  have q: "quantum x = 2 powi e" by (simp add: quantum_def e_def K_def)
  have Kx: "2 powi K \<le> x" using floor_log2(1) [OF xpos] xpos by (simp add: K_def)
  have kK: "k \<le> K"
  proof (rule ccontr)
    assume "\<not> k \<le> K"
    then have "K + 1 \<le> k" by simp
    then have "(2::real) powi (K + 1) \<le> 2 powi k" by (intro power_int_increasing) simp_all
    with floor_log2(2) [OF xpos] x xpos show False by (simp add: K_def)
  qed
  define j where "j = max k e"
  have je: "e \<le> j" and jk: "k \<le> j" by (simp_all add: j_def)
  have jK: "j \<le> K" using kK k by (simp add: j_def e_def)
  have "0 \<le> j - e" using je by simp
  have "(2::real) powi j \<le> 2 powi K" using jK by (intro power_int_increasing) simp_all
  with Kx have jx: "2 powi j \<le> x" by simp
  have "(2::real) powi (j - e) = of_int (2 ^ nat (j - e))"
    using \<open>0 \<le> j - e\<close> by (simp add: power_int_nonneg_exp)
  moreover have "(2::real) powi (j - e) \<le> x / 2 powi e"
    using jx by (simp add: power_int_diff field_simps)
  ultimately have "of_int (2 ^ nat (j - e)) \<le> x / quantum x" by (simp add: q)
  then have "2 ^ nat (j - e) \<le> round_even (x / quantum x)" by (rule round_even_ge)
  then have "(of_int (2 ^ nat (j - e)) :: real) \<le> of_int (round_even (x / quantum x))"
    by (simp only: of_int_le_iff)
  then have "(2::real) powi (j - e) * 2 powi e \<le> of_int (round_even (x / quantum x)) * quantum x"
    using \<open>0 \<le> j - e\<close> by (simp add: q power_int_nonneg_exp)
  then have "(2::real) powi j \<le> of_int (round_even (x / quantum x)) * quantum x"
    by (simp add: power_int_diff)
  moreover have "(2::real) powi k \<le> 2 powi j" using jk by (intro power_int_increasing) simp_all
  ultimately have r: "2 powi k \<le> of_int (round_even (x / quantum x)) * quantum x" by simp
  show ?thesis
    using xpos r by (simp add: round64_def Let_def)
qed

text \<open>Every finite binary64 value is a multiple of the smallest positive one, so two
  different ones are at least that far apart and their computed difference is not zero.\<close>

lemma round64_grid:
  assumes "round64 y = Fin r"
  shows "\<exists>N::int. r = of_int N * 2 powi emin"
proof (cases "y = 0")
  case True
  with assms have "r = of_int 0 * 2 powi emin" by (simp add: round64_def)
  then show ?thesis by blast
next
  case False
  define e where "e = max (\<lfloor>log 2 \<bar>y\<bar>\<rfloor> - 52) emin"
  define n where "n = round_even (y / quantum y)"
  have e: "0 \<le> e - emin" by (simp add: e_def)
  have q: "quantum y = 2 powi e" by (simp add: quantum_def e_def)
  have "(2::real) powi e = 2 powi (e - emin) * 2 powi emin"
    using power_int_add [of "2::real" "e - emin" emin] by simp
  also have "(2::real) powi (e - emin) = of_int (2 ^ nat (e - emin))"
    using e by (simp add: power_int_nonneg_exp)
  finally have q': "quantum y = of_int (2 ^ nat (e - emin)) * 2 powi emin"
    by (simp only: q)
  from assms False have "r = of_int n * quantum y"
    by (simp add: round64_def Let_def n_def split: if_splits)
  then have "r = of_int (n * 2 ^ nat (e - emin)) * 2 powi emin"
    by (simp add: q')
  then show ?thesis by blast
qed

lemma grid_gap:
  assumes "a = of_int M * 2 powi emin" "b = of_int N * 2 powi emin" "a < (b::real)"
  shows "2 powi emin \<le> b - a"
proof -
  have pos: "(0::real) < 2 powi emin" by simp
  from assms pos have "M < N"
    by (metis mult_less_cancel_right_pos of_int_less_iff)
  then have "(1::real) \<le> of_int (N - M)" by simp
  then have "1 * 2 powi emin \<le> (of_int (N - M) :: real) * 2 powi emin"
    using pos by (intro mult_right_mono) simp_all
  with assms show ?thesis by (simp add: algebra_simps)
qed

lemma quantum_eval:
  assumes "2 powi k \<le> \<bar>x\<bar>" "\<bar>x\<bar> < 2 powi (k + 1)"
  shows "quantum x = 2 powi (max (k - 52) emin)"
  using floor_log2_eq [OF assms] by (simp add: quantum_def)

text \<open>The rounding of a number whose binade is known.\<close>

lemma round64_eval:
  assumes "2 powi k \<le> \<bar>x\<bar>" "\<bar>x\<bar> < 2 powi (k + 1)"
    and "\<not> huge \<le> \<bar>of_int (round_even (x / 2 powi (max (k - 52) emin)))
                      * 2 powi (max (k - 52) emin)\<bar>"
  shows "round64 x = Fin (of_int (round_even (x / 2 powi (max (k - 52) emin)))
                          * 2 powi (max (k - 52) emin))"
proof -
  have "(0::real) < 2 powi k" by simp
  also note assms(1)
  finally have "x \<noteq> 0" by simp
  then show ?thesis
    using assms(3) by (simp add: round64_def Let_def quantum_eval [OF assms(1,2)])
qed

lemma round64_not_NaN: "round64 x \<noteq> NaN"
  by (simp add: round64_def Let_def)

lemma round64_nonpos:
  assumes "x \<le> 0"
  shows "round64 x = NegInf \<or> (\<exists>r. round64 x = Fin r \<and> r \<le> 0)"
proof (cases "x = 0")
  case True
  then show ?thesis by (simp add: round64_def)
next
  case False
  with assms have neg: "x < 0" by simp
  then have "x / quantum x < 0" using quantum_pos [of x] by (simp add: field_simps)
  then have "\<lfloor>x / quantum x\<rfloor> < 0" by (simp add: floor_less_iff)
  moreover have "round_even (x / quantum x) \<le> \<lfloor>x / quantum x\<rfloor> + 1"
    by (simp add: round_even_def Let_def)
  ultimately have "round_even (x / quantum x) \<le> 0" by linarith
  then have "of_int (round_even (x / quantum x)) * quantum x \<le> 0"
    using quantum_pos [of x] by (simp add: mult_le_0_iff)
  with neg show ?thesis by (simp add: round64_def Let_def)
qed

text \<open>The mean of two finite values is finite or an infinity, never \<open>NaN\<close>.\<close>

lemma mean_cases:
  obtains m where "q_div (q_add (Fin wl) (Fin wr)) (Fin 2) = Fin m"
                  "\<exists>N::int. m = of_int N * 2 powi emin"
  | "q_div (q_add (Fin wl) (Fin wr)) (Fin 2) = PosInf"
  | "q_div (q_add (Fin wl) (Fin wr)) (Fin 2) = NegInf"
proof (cases "round64 (wl + wr)")
  case (Fin s)
  show ?thesis
  proof (cases "round64 (s / 2)")
    case (Fin m)
    with \<open>round64 (wl + wr) = Fin s\<close> round64_grid [OF Fin] that(1) show ?thesis by simp
  next
    case PosInf
    with \<open>round64 (wl + wr) = Fin s\<close> that(2) show ?thesis by simp
  next
    case NegInf
    with \<open>round64 (wl + wr) = Fin s\<close> that(3) show ?thesis by simp
  next
    case NaN
    then show ?thesis by (simp add: round64_not_NaN)
  qed
next
  case PosInf
  with that(2) show ?thesis by simp
next
  case NegInf
  with that(3) show ?thesis by simp
next
  case NaN
  then show ?thesis by (simp add: round64_not_NaN)
qed

text \<open>A positive finite clearance divided by a divisor in \<open>(0, 1]\<close> and capped at 1.\<close>

lemma score_of_clearance:
  assumes d: "2 powi emin \<le> d" and c: "0 < c" "c \<le> 1"
  shows "q_less (Fin 0) (q_min (Fin 1) (q_div (Fin d) (Fin c)))
         \<and> q_le (q_min (Fin 1) (q_div (Fin d) (Fin c))) (Fin 1)
         \<and> (c \<le> d \<longrightarrow> q_min (Fin 1) (q_div (Fin d) (Fin c)) = Fin 1)"
proof -
  have tiny: "(0::real) < 2 powi emin" by simp
  from tiny d have dpos: "0 < d" by linarith
  have "d \<le> d / c" using c dpos by (simp add: field_simps)
  with d have "2 powi emin \<le> d / c" by simp
  from round64_ge_power [OF this order_refl]
  have range: "q_less (Fin 0) (q_min (Fin 1) (round64 (d / c)))
               \<and> q_le (q_min (Fin 1) (round64 (d / c))) (Fin 1)"
  proof
    assume "round64 (d / c) = PosInf"
    then show ?thesis by (simp add: q_min_def)
  next
    assume "\<exists>r. round64 (d / c) = Fin r \<and> 2 powi emin \<le> r"
    then obtain r where r: "round64 (d / c) = Fin r" "2 powi emin \<le> r" by blast
    with tiny have "0 < r" by linarith
    with r(1) show ?thesis by (simp add: q_min_def)
  qed
  have one: "q_min (Fin 1) (round64 (d / c)) = Fin 1" if "c \<le> d"
  proof -
    from that c have "2 powi 0 \<le> d / c" by (simp add: field_simps)
    moreover have "emin \<le> 0" by (simp add: emin_def)
    ultimately have "round64 (d / c) = PosInf \<or> (\<exists>r. round64 (d / c) = Fin r \<and> 2 powi 0 \<le> r)"
      by (rule round64_ge_power)
    then show ?thesis by (auto simp: q_min_def)
  qed
  from range one c show ?thesis by simp
qed

lemmas round64_calc = emin_def huge_def round_even_def Let_def

lemma round64_zero [simp]: "round64 0 = Fin 0"
  by (simp add: round64_def)

lemma round64_values:
  "round64 1 = Fin 1"
  "round64 (1 / 2) = Fin (1 / 2)"
  "round64 (1 / 10) = Fin (3602879701896397 / 2 ^ 55)"
  "round64 (1 / 5) = Fin (3602879701896397 / 2 ^ 54)"
  "round64 (7 / 10) = Fin (3152519739159347 / 2 ^ 52)"
  by (subst round64_eval [where k = 0], simp_all add: round64_calc)
     (subst round64_eval [where k = "-1"], simp_all add: round64_calc,
      subst round64_eval [where k = "-4"], simp_all add: round64_calc,
      subst round64_eval [where k = "-3"], simp_all add: round64_calc,
      subst round64_eval [where k = "-1"], simp_all add: round64_calc)

subsection \<open>Landmarks, histories and form scores\<close>

lemmas POSE_LANDMARKS =
  NOSE_def LEFT_SHOULDER_def RIGHT_SHOULDER_def LEFT_ELBOW_def RIGHT_ELBOW_def
  LEFT_WRIST_def RIGHT_WRIST_def LEFT_HIP_def RIGHT_HIP_def LEFT_KNEE_def RIGHT_KNEE_def
  LEFT_ANKLE_def RIGHT_ANKLE_def

lemma sqrt_eqI: "0 \<le> y \<Longrightarrow> y * y = x \<Longrightarrow> sqrt x = (y::real)"
  by (metis abs_of_nonneg real_sqrt_abs2)

lemma sqrt_vals:
  "sqrt (9/100) = 3/10" "sqrt (9/25) = 3/5" "sqrt (4/25) = 2/5" "sqrt (36/625) = 6/25"
  "sqrt (1/25) = 1/5"
  by (rule sqrt_eqI; simp)+

lemma addToValidationHistory_snd [simp]:
  "repCount (snd (addToValidationHistory v s)) = repCount s"
  "lastValidationTime (snd (addToValidationHistory v s)) = lastValidationTime s"
  "isInPosition (snd (addToValidationHistory v s)) = isInPosition s"
  "ExerciseValidator.more (snd (addToValidationHistory v s)) = ExerciseValidator.more s"
  by (simp_all add: addToValidationHistory_def Let_def)

lemma addToValidationHistory_ext [simp]:
  "pu_isInDownPosition (snd (addToValidationHistory v s)) = pu_isInDownPosition s"
  "pu_isInUpPosition (snd (addToValidationHistory v s)) = pu_isInUpPosition s"
  "cu_isInDownPosition (snd (addToValidationHistory v c)) = cu_isInDownPosition c"
  "cu_isInUpPosition (snd (addToValidationHistory v c)) = cu_isInUpPosition c"
  "isInPlankPosition (snd (addToValidationHistory v k)) = isInPlankPosition k"
  "plankStartTime (snd (addToValidationHistory v k)) = plankStartTime k"
  "plankDuration (snd (addToValidationHistory v k)) = plankDuration k"
  "lastStableTime (snd (addToValidationHistory v k)) = lastStableTime k"
  "recentPoses (snd (addToValidationHistory v k)) = recentPoses k"
  "nextMilestoneIndex (snd (addToValidationHistory v k)) = nextMilestoneIndex k"
  by (simp_all add: addToValidationHistory_def Let_def)

lemma addToValidationHistory_fst:
  "fst (addToValidationHistory v s)
     = (3 \<le> countTrue (validationHistory (snd (addToValidationHistory v s))))"
  by (simp add: addToValidationHistory_def Let_def historySize_def countTrue_def)

lemma invalidResult_sel [simp]:
  "isValid (invalidResult m) = False" "feedback (invalidResult m) = [m]"
  "completedRep (invalidResult m) = False" "formScore (invalidResult m) = 0"
  by (simp_all add: invalidResult_def)

lemma calculateFormScore_four:
  "calculateFormScore [a, b, c, d] = real (countTrue [a, b, c, d]) / 4"
  by (simp add: calculateFormScore_def countTrue_def)

lemma four_criteria_valid:
  "(calculateFormScore [a, b, c, d] > 0.6) = (3 \<le> countTrue [a, b, c, d])"
  by (cases a; cases b; cases c; cases d; simp add: calculateFormScore_def countTrue_def)

subsection \<open>Sessions\<close>

lemma PushUp_run_Cons:
  "fst (PushUp_run ((now, p) # fs) s)
     = fst (PushUp_validate now p s) # fst (PushUp_run fs (snd (PushUp_validate now p s)))"
  "snd (PushUp_run ((now, p) # fs) s) = snd (PushUp_run fs (snd (PushUp_validate now p s)))"
  by (simp_all add: split_def Let_def)

lemma ChinUp_run_Cons:
  "fst (ChinUp_run ((now, p) # fs) s)
     = fst (ChinUp_validate now p s) # fst (ChinUp_run fs (snd (ChinUp_validate now p s)))"
  "snd (ChinUp_run ((now, p) # fs) s) = snd (ChinUp_run fs (snd (ChinUp_validate now p s)))"
  by (simp_all add: split_def Let_def)

lemma Plank_run_Cons:
  "fst (Plank_run ((n1, n2, p) # fs) s)
     = fst (Plank_validate n1 n2 p s) # fst (Plank_run fs (snd (Plank_validate n1 n2 p s)))"
  "snd (Plank_run ((n1, n2, p) # fs) s) = snd (Plank_run fs (snd (Plank_validate n1 n2 p s)))"
  by (simp_all add: split_def Let_def)

lemma run_Nil [simp]:
  "fst (PushUp_run [] s) = []" "snd (PushUp_run [] s) = s"
  "fst (ChinUp_run [] c) = []" "snd (ChinUp_run [] c) = c"
  "fst (Plank_run [] k) = []" "snd (Plank_run [] k) = k"
  by simp_all

declare PushUp_run.simps [simp del] ChinUp_run.simps [simp del] Plank_run.simps [simp del]
declare PushUp_run_Cons [simp] ChinUp_run_Cons [simp] Plank_run_Cons [simp]

subsection \<open>The push-up phase machine\<close>

lemma PushUp_countRep_state:
  "snd (snd (PushUp_countRep a v now s)) =
     (if num_lt a 70 \<and> \<not> pu_isInDownPosition s \<and> v
      then s\<lparr>pu_isInDownPosition := True, pu_isInUpPosition := False\<rparr>
      else if num_gt a 160 \<and> pu_isInDownPosition s \<and> \<not> pu_isInUpPosition s \<and> v
      then (if now - lastValidationTime s \<ge> 1000
            then s\<lparr>lastValidationTime := now, repCount := repCount s + 1,
                   pu_isInDownPosition := False, pu_isInUpPosition := False\<rparr>
            else s\<lparr>pu_isInUpPosition := True\<rparr>)
      else s)"
  by (simp add: PushUp_countRep_def Let_def hasEnoughTimePassed_def pu_minArmAngle_def
      pu_maxArmAngle_def)

lemma PushUp_countRep_completed:
  "fst (snd (PushUp_countRep a v now s)) =
     (\<not> (num_lt a 70 \<and> \<not> pu_isInDownPosition s) \<and> num_gt a 160 \<and> pu_isInDownPosition s
      \<and> \<not> pu_isInUpPosition s \<and> v \<and> now - lastValidationTime s \<ge> 1000)"
  by (auto simp: PushUp_countRep_def Let_def hasEnoughTimePassed_def pu_minArmAngle_def
      pu_maxArmAngle_def)

lemma PushUp_validate_unseen:
  "\<not> PushUp_visible p \<Longrightarrow>
     PushUp_validate now p s =
       (invalidResult (if confidence p < 0.6
                       then ''Please position yourself clearly in the camera view''
                       else ''Please ensure your upper body is fully visible''), s)"
  by (auto simp: PushUp_validate_def PushUp_visible_def)

lemma PushUp_validate_state:
  "PushUp_visible p \<Longrightarrow>
     snd (PushUp_validate now p s) =
       snd (addToValidationHistory (PushUp_judgedValid p)
              (snd (snd (PushUp_countRep (frame_avgArmAngle p) (PushUp_judgedValid p) now s))))"
  by (simp add: PushUp_validate_def PushUp_visible_def PushUp_judgedValid_def Let_def split_def)

lemma PushUp_validate_completed:
  "completedRep (fst (PushUp_validate now p s)) =
     (PushUp_visible p
      \<and> fst (snd (PushUp_countRep (frame_avgArmAngle p) (PushUp_judgedValid p) now s)))"
  by (simp add: PushUp_validate_def PushUp_visible_def PushUp_judgedValid_def Let_def split_def
      del: invalidResult_sel add: invalidResult_def)

lemma PushUp_repCount_step:
  "repCount (snd (PushUp_validate now p s)) =
     (if completedRep (fst (PushUp_validate now p s)) then repCount s + 1 else repCount s)"
proof (cases "PushUp_visible p")
  case True
  then show ?thesis
    by (simp add: PushUp_validate_state PushUp_validate_completed PushUp_countRep_state
        PushUp_countRep_completed)
next
  case False
  then show ?thesis
    by (simp add: PushUp_validate_unseen PushUp_validate_completed)
qed

lemma PushUp_run_mono: "repCount s \<le> repCount (snd (PushUp_run fs s))"
proof (induction fs arbitrary: s)
  case Nil
  show ?case by simp
next
  case (Cons f fs)
  obtain now p where f: "f = (now, p)" by (cases f)
  have "repCount s \<le> repCount (snd (PushUp_validate now p s))"
    by (simp add: PushUp_repCount_step)
  also have "\<dots> \<le> repCount (snd (PushUp_run fs (snd (PushUp_validate now p s))))"
    by (rule Cons.IH)
  finally show ?case by (simp add: f)
qed

subsection \<open>The chin-up phase machine\<close>

lemma ChinUp_countRep_repCount:
  "repCount (snd (snd (ChinUp_countRep a c v now s))) =
     (if fst (snd (ChinUp_countRep a c v now s)) then repCount s + 1 else repCount s)"
  by (simp add: ChinUp_countRep_def Let_def hasEnoughTimePassed_def)

lemma ChinUp_repCount_step:
  "repCount (snd (ChinUp_validate now p s)) =
     (if completedRep (fst (ChinUp_validate now p s)) then repCount s + 1 else repCount s)"
  by (simp add: ChinUp_validate_def Let_def split_def ChinUp_countRep_repCount)

lemma ChinUp_run_mono: "repCount s \<le> repCount (snd (ChinUp_run fs s))"
proof (induction fs arbitrary: s)
  case Nil
  show ?case by simp
next
  case (Cons f fs)
  obtain now p where f: "f = (now, p)" by (cases f)
  have "repCount s \<le> repCount (snd (ChinUp_validate now p s))"
    by (simp add: ChinUp_repCount_step)
  also have "\<dots> \<le> repCount (snd (ChinUp_run fs (snd (ChinUp_validate now p s))))"
    by (rule Cons.IH)
  finally show ?case by (simp add: f)
qed

subsection \<open>The plank tracker\<close>

lemma addToRecentPoses_same [simp]:
  "repCount (addToRecentPoses p s) = repCount s"
  "nextMilestoneIndex (addToRecentPoses p s) = nextMilestoneIndex s"
  "isInPlankPosition (addToRecentPoses p s) = isInPlankPosition s"
  "plankStartTime (addToRecentPoses p s) = plankStartTime s"
  "plankDuration (addToRecentPoses p s) = plankDuration s"
  "lastStableTime (addToRecentPoses p s) = lastStableTime s"
  "validationHistory (addToRecentPoses p s) = validationHistory s"
  "lastValidationTime (addToRecentPoses p s) = lastValidationTime s"
  by (simp_all add: addToRecentPoses_def Let_def)

lemma handleInvalidPose_same [simp]:
  "repCount (handleInvalidPose now s) = repCount s"
  "nextMilestoneIndex (handleInvalidPose now s) = nextMilestoneIndex s"
  "plankStartTime (handleInvalidPose now s) = plankStartTime s"
  "plankDuration (handleInvalidPose now s) = plankDuration s"
  "lastStableTime (handleInvalidPose now s) = lastStableTime s"
  "validationHistory (handleInvalidPose now s) = validationHistory s"
  "recentPoses (handleInvalidPose now s) = recentPoses s"
  by (simp_all add: handleInvalidPose_def)

lemma handleInvalidPose_flag:
  "isInPlankPosition (handleInvalidPose now s) =
     (isInPlankPosition s \<and> \<not> now - lastStableTime s > 1000)"
  by (simp add: handleInvalidPose_def)

lemma Plank_track_state:
  "snd (snd (Plank_track v n1 n2 s)) =
     (if v then
        (if \<not> isInPlankPosition s then s\<lparr>isInPlankPosition := True, plankStartTime := n1\<rparr>
         else
           let sa = s\<lparr>plankDuration := n1 - plankStartTime s, lastStableTime := n1\<rparr>
           in if nextMilestoneIndex s < length milestoneDurations
                 \<and> n1 - plankStartTime s \<ge> milestoneDurations ! nextMilestoneIndex s
              then sa\<lparr>repCount := repCount s + 1,
                      nextMilestoneIndex := nextMilestoneIndex s + 1\<rparr>
              else sa)
      else if isInPlankPosition s \<and> n1 - lastStableTime s > 1000
           then handleInvalidPose n2 s else s)"
  by (simp add: Plank_track_def Let_def)

lemma Plank_track_completed:
  "fst (snd (Plank_track v n1 n2 s)) =
     (v \<and> isInPlankPosition s \<and> nextMilestoneIndex s < length milestoneDurations
      \<and> n1 - plankStartTime s \<ge> milestoneDurations ! nextMilestoneIndex s)"
  by (simp add: Plank_track_def Let_def)

lemma Plank_validate_unseen:
  "\<not> Plank_visible p \<Longrightarrow>
     Plank_validate n1 n2 p s =
       (invalidResult (if confidence p < 0.6
                       then ''Please position yourself clearly in the camera view''
                       else ''Please ensure your full body is visible''),
        handleInvalidPose n1 (addToRecentPoses p s))"
  by (auto simp: Plank_validate_def Plank_visible_def Let_def)

lemma Plank_validate_state:
  "Plank_visible p \<Longrightarrow>
     snd (Plank_validate n1 n2 p s) =
       snd (addToValidationHistory (Plank_judgedValid p s)
              (snd (snd (Plank_track (Plank_judgedValid p s) n1 n2 (addToRecentPoses p s)))))"
  by (simp add: Plank_validate_def Plank_judgedValid_def Plank_visible_def Plank_criteria_def
      Let_def split_def)

lemma Plank_validate_completed:
  "completedRep (fst (Plank_validate n1 n2 p s)) =
     (Plank_judgedValid p s \<and> isInPlankPosition s
      \<and> nextMilestoneIndex s < length milestoneDurations
      \<and> n1 - plankStartTime s \<ge> milestoneDurations ! nextMilestoneIndex s)"
  by (simp add: Plank_validate_def Plank_track_completed Plank_judgedValid_def Plank_visible_def
      Plank_criteria_def Let_def split_def)

lemma Plank_validate_formScore:
  "formScore (fst (Plank_validate n1 n2 p s)) =
     (if Plank_visible p then calculateFormScore (Plank_criteria p s) else 0)"
  by (simp add: Plank_validate_def Plank_visible_def Plank_criteria_def Let_def split_def)

lemma Plank_validate_isValid:
  "isValid (fst (Plank_validate n1 n2 p s)) =
     (Plank_visible p \<and> 3 \<le> countTrue (validationHistory (snd (Plank_validate n1 n2 p s))))"
  by (simp add: Plank_validate_def Plank_visible_def Let_def split_def
      addToValidationHistory_fst)

lemma Plank_validate_history:
  "validationHistory (snd (Plank_validate n1 n2 p s)) =
     (if Plank_visible p
      then validationHistory (snd (addToValidationHistory (Plank_judgedValid p s) s))
      else validationHistory s)"
  by (simp add: Plank_validate_state Plank_validate_unseen Plank_track_state
      addToValidationHistory_def Let_def)

lemma Plank_repCount_step:
  "repCount (snd (Plank_validate n1 n2 p s)) =
     (if completedRep (fst (Plank_validate n1 n2 p s)) then repCount s + 1 else repCount s)"
  by (cases "Plank_visible p")
     (simp_all add: Plank_validate_state Plank_validate_unseen Plank_validate_completed
        Plank_track_state Let_def Plank_judgedValid_def)

lemma Plank_index_step:
  "nextMilestoneIndex (snd (Plank_validate n1 n2 p s)) =
     (if completedRep (fst (Plank_validate n1 n2 p s))
      then nextMilestoneIndex s + 1 else nextMilestoneIndex s)"
  by (cases "Plank_visible p")
     (simp_all add: Plank_validate_state Plank_validate_unseen Plank_validate_completed
        Plank_track_state Let_def Plank_judgedValid_def addToValidationHistory_def)

lemma Plank_run_mono:
  "repCount s \<le> repCount (snd (Plank_run fs s))
   \<and> nextMilestoneIndex s \<le> nextMilestoneIndex (snd (Plank_run fs s))"
proof (induction fs arbitrary: s)
  case Nil
  show ?case by simp
next
  case (Cons f fs)
  obtain n1 n2 p where f: "f = (n1, n2, p)" by (cases f)
  let ?s = "snd (Plank_validate n1 n2 p s)"
  have "repCount s \<le> repCount ?s" "nextMilestoneIndex s \<le> nextMilestoneIndex ?s"
    by (simp_all add: Plank_repCount_step Plank_index_step)
  moreover have "repCount ?s \<le> repCount (snd (Plank_run fs ?s))"
    "nextMilestoneIndex ?s \<le> nextMilestoneIndex (snd (Plank_run fs ?s))"
    using Cons.IH [of ?s] by simp_all
  ultimately show ?case by (simp add: f)
qed

section \<open>The concrete frames\<close>

lemma calculateAngle_polar:
  assumes ba: "lx a - lx b = r" "ly a - ly b = 0"
    and bc: "lx c - lx b = r * cos t" "ly c - ly b = r * sin t"
    and r: "0 < r" and t: "0 \<le> t" "t \<le> pi"
  shows "calculateAngle a b c = Some (t * (180 / pi))"
proof -
  have m1: "sqrt (r * r + 0 * 0) = r" using r by simp
  have "r * cos t * (r * cos t) + r * sin t * (r * sin t)
        = r * r * (cos t * cos t + sin t * sin t)"
    by (simp only: algebra_simps)
  also have "\<dots> = r * r" by simp
  finally have m2: "sqrt (r * cos t * (r * cos t) + r * sin t * (r * sin t)) = r"
    using r by simp
  have q: "(r * (r * cos t) + 0 * (r * sin t)) / (r * r) = cos t" using r by simp
  have "r * r \<noteq> 0" using r by simp
  then show ?thesis
    unfolding calculateAngle_def Let_def ba bc m1 m2 js_div_def js_acos_def
    using t by (simp only: q if_True quotient.case option.map) (simp add: arccos_cos)
qed

lemma arm_angle:
  assumes "0 \<le> d" "d \<le> 180"
  shows "calculateAngle (lm (a + 1/10) b) (lm a b)
           (lm (a + cos (d * pi / 180) / 10) (b + sin (d * pi / 180) / 10)) = Some d"
proof -
  have "calculateAngle (lm (a + 1/10) b) (lm a b)
           (lm (a + cos (d * pi / 180) / 10) (b + sin (d * pi / 180) / 10))
        = Some ((d * pi / 180) * (180 / pi))"
    using assms by (intro calculateAngle_polar [where r = "1/10"]) (auto simp: lm_def field_simps)
  then show ?thesis by simp
qed

lemma getLandmark_armPose:
  "getLandmark (armPose d c) 11 = Some (lm 0.4 0.5)"
  "getLandmark (armPose d c) 12 = Some (lm 0.8 0.5)"
  "getLandmark (armPose d c) 13 = Some (lm 0.3 0.5)"
  "getLandmark (armPose d c) 14 = Some (lm 0.7 0.5)"
  "getLandmark (armPose d c) 15
     = Some (lm (0.3 + cos (d * pi / 180) / 10) (0.5 + sin (d * pi / 180) / 10))"
  "getLandmark (armPose d c) 16
     = Some (lm (0.7 + cos (d * pi / 180) / 10) (0.5 + sin (d * pi / 180) / 10))"
  "getLandmark (armPose d c) 23 = Some (lm 0.4 0.5)"
  "getLandmark (armPose d c) 24 = Some (lm 0.8 0.5)"
  by (simp_all add: getLandmark_def armPose_def blankLandmarks_def Let_def)

lemma armPose_visible: "\<not> c < 0.6 \<Longrightarrow> PushUp_visible (armPose d c)"
  by (simp add: PushUp_visible_def PushUp_requiredLandmarks_def getLandmark_armPose
      POSE_LANDMARKS isLandmarkReliable_def lm_def) (simp add: armPose_def Let_def)

lemma armPose_angles:
  assumes "0 \<le> d" "d \<le> 180"
  shows "frame_leftArmAngle (armPose d c) = Some d" "frame_rightArmAngle (armPose d c) = Some d"
  using arm_angle [OF assms, of "3/10" "1/2"] arm_angle [OF assms, of "7/10" "1/2"]
  by (simp_all add: frame_leftArmAngle_def frame_rightArmAngle_def getLandmark_armPose
      POSE_LANDMARKS)

lemma armPose_avg:
  "0 \<le> d \<Longrightarrow> d \<le> 180 \<Longrightarrow> frame_avgArmAngle (armPose d c) = Some d"
  by (simp add: frame_avgArmAngle_def avgAngle_def armPose_angles)

lemma armPose_alignment: "PushUp_bodyAlignmentScore (armPose d c) = Fin 1"
  by (simp add: PushUp_bodyAlignmentScore_def PushUp_checkBodyAlignment_def
      getLandmark_armPose POSE_LANDMARKS lm_def pu_bodyAlignmentThreshold_def
      round64_values q_sub_def q_max_def q_min_def)

lemma armPose_formScore:
  "30 < d \<Longrightarrow> d < 180 \<Longrightarrow> PushUp_formScore (armPose d c) = 1"
  by (simp add: PushUp_formScore_def PushUp_formCriteria_def armPose_alignment
      round64_values frame_armSymmetryScore_def checkArmSymmetry_def
      armPose_angles armPose_avg num_gt_def num_lt_def calculateFormScore_def)

lemma downPose_facts:
  "PushUp_judgedValid downPose" "frame_avgArmAngle downPose = Some 60"
  by (simp_all add: downPose_def PushUp_judgedValid_def armPose_visible armPose_formScore
      armPose_avg)

lemma upPose_facts:
  "PushUp_judgedValid upPose" "frame_avgArmAngle upPose = Some 170"
  by (simp_all add: upPose_def PushUp_judgedValid_def armPose_visible armPose_formScore
      armPose_avg)

lemma getLandmark_plankPose:
  "getLandmark (plankPose e ax ay c) 11 = Some (lm (-0.15) 0.5)"
  "getLandmark (plankPose e ax ay c) 12 = Some (lm 0.15 0.5)"
  "getLandmark (plankPose e ax ay c) 13 = Some (lm (-0.15 - e) 0.5)"
  "getLandmark (plankPose e ax ay c) 14 = Some (lm (0.15 + e) 0.5)"
  "getLandmark (plankPose e ax ay c) 15 = Some (lm (-0.15) 0.5)"
  "getLandmark (plankPose e ax ay c) 16 = Some (lm 0.15 0.5)"
  "getLandmark (plankPose e ax ay c) 23 = Some (lm (-0.15) 0.8)"
  "getLandmark (plankPose e ax ay c) 24 = Some (lm 0.15 0.8)"
  "getLandmark (plankPose e ax ay c) 25 = Some (lm (-0.15) 1.1)"
  "getLandmark (plankPose e ax ay c) 26 = Some (lm 0.15 1.1)"
  "getLandmark (plankPose e ax ay c) 27 = Some (lm (ax - 0.15) ay)"
  "getLandmark (plankPose e ax ay c) 28 = Some (lm (ax + 0.15) ay)"
  by (simp_all add: getLandmark_def plankPose_def blankLandmarks_def)

lemma plankPose_visible: "Plank_visible (plankPose e ax ay c) = (\<not> c < 0.6)"
  by (simp add: Plank_visible_def Plank_requiredLandmarks_def getLandmark_plankPose
      POSE_LANDMARKS isLandmarkReliable_def lm_def) (simp add: plankPose_def)

lemma plankPose_elbow:
  "Plank_elbowPositionScore (plankPose e ax ay c) = max 0 (1 - \<bar>e\<bar> / 0.1)"
  by (simp add: Plank_elbowPositionScore_def checkElbowPosition_def getLandmark_plankPose
      POSE_LANDMARKS lm_def)

lemma straight_alignment: "Plank_bodyAlignmentScore (plankPose e 0 (7/5) c) = Some 1"
  by (simp add: Plank_bodyAlignmentScore_def Plank_checkBodyAlignment_def
      getLandmark_plankPose POSE_LANDMARKS lm_def center_def areLandmarksAligned_def
      pointToLineDistance_def pl_bodyAlignmentThreshold_def Let_def)

lemma straight_hip: "Plank_hipPositionScore (plankPose e 0 (7/5) c) = Some 1"
  by (simp add: Plank_hipPositionScore_def checkHipPosition_def getLandmark_plankPose
      POSE_LANDMARKS lm_def center_def Let_def power2_eq_square sqrt_vals js_div_def
      js_clamp_def js_acos_def)

lemma bent_alignment: "Plank_bodyAlignmentScore (plankPose e (2/5) (4/5) c) = Some 0"
  by (simp add: Plank_bodyAlignmentScore_def Plank_checkBodyAlignment_def
      getLandmark_plankPose POSE_LANDMARKS lm_def center_def areLandmarksAligned_def
      pointToLineDistance_def pl_bodyAlignmentThreshold_def Let_def calculateBodyAngle_def
      power2_eq_square sqrt_vals js_div_def js_clamp_def js_acos_def)

lemma bent_hip: "Plank_hipPositionScore (plankPose e (2/5) (4/5) c) = Some 0"
  by (simp add: Plank_hipPositionScore_def checkHipPosition_def getLandmark_plankPose
      POSE_LANDMARKS lm_def center_def Let_def power2_eq_square sqrt_vals js_div_def
      js_clamp_def js_acos_def)

lemma pairMovements_plankPose:
  "pairMovements (plankPose e1 ax ay c) (plankPose e2 ax' ay' c')
     = [0, 0, \<bar>e2 - e1\<bar>, \<bar>e2 - e1\<bar>, 0, 0, 0, 0]"
  by (simp add: pairMovements_def keyLandmarks_def getLandmark_plankPose lm_def
      abs_minus_commute)

lemma plank_visible [simp]:
  "Plank_visible goodPlank" "Plank_visible elbowsOut" "Plank_visible sagging"
  "\<not> Plank_visible unclear" "confidence unclear = 3 / 10"
  by (simp_all add: goodPlank_def elbowsOut_def sagging_def unclear_def plankPose_visible)
     (simp add: plankPose_def)

lemma plank_scores [simp]:
  "Plank_bodyAlignmentScore goodPlank = Some 1" "Plank_elbowPositionScore goodPlank = 1"
  "Plank_hipPositionScore goodPlank = Some 1"
  "Plank_bodyAlignmentScore elbowsOut = Some 1" "Plank_elbowPositionScore elbowsOut = 0"
  "Plank_hipPositionScore elbowsOut = Some 1"
  "Plank_bodyAlignmentScore sagging = Some 0" "Plank_elbowPositionScore sagging = 1"
  "Plank_hipPositionScore sagging = Some 0"
  by (simp_all add: goodPlank_def elbowsOut_def sagging_def plankPose_elbow straight_alignment
      straight_hip bent_alignment bent_hip)

lemma plank_movements [simp]:
  "pairMovements goodPlank goodPlank = [0, 0, 0, 0, 0, 0, 0, 0]"
  "pairMovements goodPlank sagging = [0, 0, 0, 0, 0, 0, 0, 0]"
  "pairMovements sagging sagging = [0, 0, 0, 0, 0, 0, 0, 0]"
  "pairMovements sagging goodPlank = [0, 0, 0, 0, 0, 0, 0, 0]"
  "pairMovements goodPlank unclear = [0, 0, 0, 0, 0, 0, 0, 0]"
  "pairMovements unclear goodPlank = [0, 0, 0, 0, 0, 0, 0, 0]"
  "pairMovements goodPlank elbowsOut = [0, 0, 1/5, 1/5, 0, 0, 0, 0]"
  by (simp_all add: goodPlank_def sagging_def unclear_def elbowsOut_def
      pairMovements_plankPose)

lemmas plank_eval =
  Plank_validate_state Plank_validate_unseen Plank_validate_completed Plank_validate_formScore
  Plank_validate_isValid Plank_track_state Plank_judgedValid_def Plank_criteria_def
  Plank_formCriteria_def calculatePoseStability_def calculateFormScore_def
  addToRecentPoses_def addToValidationHistory_def handleInvalidPose_def Plank_new_def
  maxRecentPoses_def historySize_def stabilityThreshold_def milestoneDurations_def
  num_gt_def countTrue_def Let_def

lemmas pushup_eval =
  PushUp_validate_state PushUp_validate_completed PushUp_countRep_state
  PushUp_countRep_completed PushUp_judgedValid_def [symmetric] num_gt_def num_lt_def
  PushUp_new_def addToValidationHistory_def historySize_def Let_def

lemma pushup_frames [simp]:
  "PushUp_visible downPose" "PushUp_visible upPose"
  using downPose_facts upPose_facts by (simp_all add: PushUp_judgedValid_def)

section \<open>The claims\<close>

subsection \<open>C1: when the plank validator judges a frame valid\<close>

text \<open>
  Claim C1 says that the plank validator judges a frame valid only when every criterion
  holds by itself.  It does not: in the third frame below the elbows are 0.2 beside the
  shoulders, the elbow score is 0, and the frame is still scored 3/4, judged valid and
  returned with \<open>isValid = true\<close>.
\<close>

theorem plank_all_criteria_counterexample:
  "Plank_visible elbowsOut
   \<and> \<not> Plank_elbowPositionScore elbowsOut > 0.7
   \<and> formScore (last (fst (Plank_run [(1000, 1000, goodPlank), (1033, 1033, goodPlank),
         (1066, 1066, elbowsOut)] Plank_new))) = 3 / 4
   \<and> isValid (last (fst (Plank_run [(1000, 1000, goodPlank), (1033, 1033, goodPlank),
         (1066, 1066, elbowsOut)] Plank_new)))"
  by (simp add: plank_eval)

text \<open>
  C1 as amended: on a frame that passes the confidence check and the landmark check,
  \<open>formScore\<close> is the fraction of the four criteria (body alignment, elbow position and
  hip position each above 0.7, stability above 0.7) that hold, and the frame is judged
  valid iff \<open>formScore > 0.6\<close>, that is iff at least three of the four hold: the rule of
  the push-up and the chin-up validator.  This judgement starts a plank and is what the
  history records; the returned \<open>isValid\<close> is the vote of at least three valid
  judgements in that history.
\<close>

theorem plank_valid_iff_three_of_four:
  assumes "Plank_visible p"
  shows "Plank_criteria p s =
           [num_gt (Plank_bodyAlignmentScore p) 0.7, Plank_elbowPositionScore p > 0.7,
            num_gt (Plank_hipPositionScore p) 0.7,
            calculatePoseStability (recentPoses (addToRecentPoses p s)) > 0.7]
         \<and> formScore (fst (Plank_validate n1 n2 p s)) = real (countTrue (Plank_criteria p s)) / 4
         \<and> Plank_judgedValid p s = (formScore (fst (Plank_validate n1 n2 p s)) > 0.6)
         \<and> Plank_judgedValid p s = (3 \<le> countTrue (Plank_criteria p s))
         \<and> (isInPlankPosition s
              \<or> isInPlankPosition (snd (Plank_validate n1 n2 p s)) = Plank_judgedValid p s)
         \<and> validationHistory (snd (Plank_validate n1 n2 p s))
             = validationHistory (snd (addToValidationHistory (Plank_judgedValid p s) s))
         \<and> isValid (fst (Plank_validate n1 n2 p s))
             = (3 \<le> countTrue (validationHistory (snd (Plank_validate n1 n2 p s))))"
proof -
  have crit: "Plank_criteria p s =
      [num_gt (Plank_bodyAlignmentScore p) 0.7, Plank_elbowPositionScore p > 0.7,
       num_gt (Plank_hipPositionScore p) 0.7,
       calculatePoseStability (recentPoses (addToRecentPoses p s)) > 0.7]"
    by (simp add: Plank_criteria_def Plank_formCriteria_def stabilityThreshold_def)
  have score: "formScore (fst (Plank_validate n1 n2 p s))
                 = real (countTrue (Plank_criteria p s)) / 4"
    using assms by (simp only: Plank_validate_formScore crit calculateFormScore_four if_True)
  have judged: "Plank_judgedValid p s = (3 \<le> countTrue (Plank_criteria p s))"
    using assms by (simp only: Plank_judgedValid_def crit four_criteria_valid simp_thms)
  have judged': "Plank_judgedValid p s = (formScore (fst (Plank_validate n1 n2 p s)) > 0.6)"
    using assms by (simp add: Plank_judgedValid_def Plank_validate_formScore)
  have start: "isInPlankPosition s
      \<or> isInPlankPosition (snd (Plank_validate n1 n2 p s)) = Plank_judgedValid p s"
    using assms by (simp add: Plank_validate_state Plank_track_state)
  have hist: "validationHistory (snd (Plank_validate n1 n2 p s))
      = validationHistory (snd (addToValidationHistory (Plank_judgedValid p s) s))"
    using assms by (simp add: Plank_validate_history)
  have vote: "isValid (fst (Plank_validate n1 n2 p s))
      = (3 \<le> countTrue (validationHistory (snd (Plank_validate n1 n2 p s))))"
    using assms by (simp add: Plank_validate_isValid)
  from crit score judged judged' start hist vote show ?thesis by blast
qed

theorem plank_valid_iff_three_of_four_witness:
  "Plank_visible elbowsOut
   \<and> countTrue (Plank_criteria elbowsOut
        (snd (Plank_run [(1000, 1000, goodPlank), (1033, 1033, goodPlank)] Plank_new))) = 3
   \<and> Plank_judgedValid elbowsOut
        (snd (Plank_run [(1000, 1000, goodPlank), (1033, 1033, goodPlank)] Plank_new))
   \<and> isValid (fst (Plank_validate 1066 1066 elbowsOut
        (snd (Plank_run [(1000, 1000, goodPlank), (1033, 1033, goodPlank)] Plank_new))))"
proof -
  let ?s = "snd (Plank_run [(1000, 1000, goodPlank), (1033, 1033, goodPlank)] Plank_new)"
  have v: "Plank_visible elbowsOut" by simp
  note T = plank_valid_iff_three_of_four [OF v, of ?s 1066 1066]
  have c: "countTrue (Plank_criteria elbowsOut ?s) = 3"
    by (simp add: plank_eval)
  have h: "countTrue (validationHistory (snd (addToValidationHistory True ?s))) = 3"
    by (simp add: plank_eval)
  from T have "Plank_judgedValid elbowsOut ?s = (3 \<le> countTrue (Plank_criteria elbowsOut ?s))"
    by blast
  with c have j: "Plank_judgedValid elbowsOut ?s" by (simp only: order_refl)
  from T have "validationHistory (snd (Plank_validate 1066 1066 elbowsOut ?s))
      = validationHistory (snd (addToValidationHistory (Plank_judgedValid elbowsOut ?s) ?s))"
    by blast
  with j h have "countTrue (validationHistory (snd (Plank_validate 1066 1066 elbowsOut ?s))) = 3"
    by (simp only: eqTrueI [OF j])
  moreover from T have "isValid (fst (Plank_validate 1066 1066 elbowsOut ?s))
      = (3 \<le> countTrue (validationHistory (snd (Plank_validate 1066 1066 elbowsOut ?s))))"
    by blast
  ultimately have "isValid (fst (Plank_validate 1066 1066 elbowsOut ?s))"
    by (simp only: order_refl)
  with v c j show ?thesis by blast
qed

subsection \<open>C2: frames of low confidence\<close>




subsection \<open>C3: the angle at a vertex\<close>

text \<open>
  Claim C3 says that the angle at a vertex is a number between 0 and 180 for every triple
  of points, coincident ones included, because the cosine is clamped before \<open>acos\<close>.
  \<open>calculateAngle\<close> of the base class does not clamp (\<open>calculateBodyAngle\<close> and
  \<open>checkHipPosition\<close> do), and when the vertex coincides with the first point the quotient
  is \<open>0 / 0\<close>: the result is \<open>NaN\<close>.  Every intermediate value at the input below is
  a binary64 value, so rounding plays no part in it.
\<close>

theorem calculateAngle_coincident_is_NaN:
  "calculateAngle (lm 0 0) (lm 0 0) (lm 1 0) = None"
  by (simp add: calculateAngle_def js_div_def js_acos_def lm_def)

subsection \<open>C4: the scripted push-up\<close>

text \<open>
  Claim C4: from the initial state, a valid down frame with average arm angle 60 followed,
  more than 1000 ms later, by a valid up frame with average arm angle 170 counts exactly
  one repetition, and \<open>completedRep\<close> is true on the up frame only (the clock reads the
  milliseconds since the epoch, so the first reading is not negative); and on a frame at
  which less than 1000 ms have passed since the last counted repetition, \<open>repCount\<close> is
  not incremented and \<open>completedRep\<close> is false, whatever the angles are.
\<close>

theorem pushup_scripted_sequence:
  "(PushUp_judgedValid d \<and> frame_avgArmAngle d = Some 60
    \<and> PushUp_judgedValid u \<and> frame_avgArmAngle u = Some 170
    \<and> 0 \<le> t1 \<and> t1 + 1000 < t2 \<longrightarrow>
      map completedRep (fst (PushUp_run [(t1, d), (t2, u)] PushUp_new)) = [False, True]
      \<and> repCount (snd (PushUp_run [(t1, d)] PushUp_new)) = 0
      \<and> repCount (snd (PushUp_run [(t1, d), (t2, u)] PushUp_new)) = 1)
   \<and> (now - lastValidationTime s < 1000 \<longrightarrow>
        repCount (snd (PushUp_validate now p s)) = repCount s
        \<and> \<not> completedRep (fst (PushUp_validate now p s)))"
proof (intro conjI impI)
  assume a: "PushUp_judgedValid d \<and> frame_avgArmAngle d = Some 60
    \<and> PushUp_judgedValid u \<and> frame_avgArmAngle u = Some 170 \<and> 0 \<le> t1 \<and> t1 + 1000 < t2"
  then have vis: "PushUp_visible d" "PushUp_visible u"
    by (simp_all add: PushUp_judgedValid_def)
  have s1: "snd (PushUp_validate t1 d PushUp_new)
      = snd (addToValidationHistory True (PushUp_new\<lparr>pu_isInDownPosition := True\<rparr>))"
    using a vis by (simp add: PushUp_validate_state PushUp_countRep_state num_lt_def
        PushUp_new_def)
  have c1: "\<not> completedRep (fst (PushUp_validate t1 d PushUp_new))"
    using a vis by (simp add: PushUp_validate_completed PushUp_countRep_completed
        num_gt_def num_lt_def PushUp_new_def)
  have c2: "completedRep (fst (PushUp_validate t2 u (snd (PushUp_validate t1 d PushUp_new))))"
    using a vis by (simp add: s1 PushUp_validate_completed PushUp_countRep_completed
        num_gt_def num_lt_def) (simp add: PushUp_new_def)
  show "map completedRep (fst (PushUp_run [(t1, d), (t2, u)] PushUp_new)) = [False, True]"
    using c1 c2 by simp
  show r1: "repCount (snd (PushUp_run [(t1, d)] PushUp_new)) = 0"
    using c1 by (simp add: PushUp_repCount_step) (simp add: PushUp_new_def)
  show "repCount (snd (PushUp_run [(t1, d), (t2, u)] PushUp_new)) = 1"
    using c2 r1 by (simp add: PushUp_repCount_step [of t2])
next
  assume g: "now - lastValidationTime s < 1000"
  then have "\<not> completedRep (fst (PushUp_validate now p s))"
    by (simp add: PushUp_validate_completed PushUp_countRep_completed)
  then show "repCount (snd (PushUp_validate now p s)) = repCount s"
    and "\<not> completedRep (fst (PushUp_validate now p s))"
    by (simp_all add: PushUp_repCount_step)
qed

theorem pushup_scripted_sequence_witness:
  "PushUp_judgedValid downPose \<and> frame_avgArmAngle downPose = Some 60
   \<and> PushUp_judgedValid upPose \<and> frame_avgArmAngle upPose = Some 170
   \<and> map completedRep (fst (PushUp_run [(5000, downPose), (6500, upPose)] PushUp_new))
       = [False, True]
   \<and> repCount (snd (PushUp_run [(5000, downPose), (6500, upPose)] PushUp_new)) = 1
   \<and> 7100 - lastValidationTime
        (snd (PushUp_run [(5000, downPose), (6500, upPose), (6800, downPose)] PushUp_new))
       < 1000
   \<and> repCount (snd (PushUp_validate 7100 upPose
        (snd (PushUp_run [(5000, downPose), (6500, upPose), (6800, downPose)] PushUp_new))))
       = 1"
proof -
  let ?s = "snd (PushUp_run [(5000, downPose), (6500, upPose), (6800, downPose)] PushUp_new)"
  have g: "7100 - lastValidationTime ?s < 1000"
    by (simp add: pushup_eval downPose_facts upPose_facts)
  have r: "repCount ?s = 1"
    by (simp add: pushup_eval downPose_facts upPose_facts)
  note T = pushup_scripted_sequence [of downPose upPose 5000 6500 7100 ?s upPose]
  from T have "repCount (snd (PushUp_validate 7100 upPose ?s)) = repCount ?s"
    using g by blast
  moreover from T have
    "map completedRep (fst (PushUp_run [(5000, downPose), (6500, upPose)] PushUp_new))
       = [False, True]
     \<and> repCount (snd (PushUp_run [(5000, downPose), (6500, upPose)] PushUp_new)) = 1"
    using downPose_facts upPose_facts by simp
  ultimately show ?thesis
    using g r downPose_facts upPose_facts by simp
qed

subsection \<open>C5: losing the plank position\<close>

lemma Plank_invalid_step:
  assumes "\<not> Plank_judgedValid p s" "n1 \<le> n2"
  shows "isInPlankPosition (snd (Plank_validate n1 n2 p s))
           = (isInPlankPosition s \<and> n1 - lastStableTime s \<le> 1000)"
    and "repCount (snd (Plank_validate n1 n2 p s)) = repCount s"
    and "nextMilestoneIndex (snd (Plank_validate n1 n2 p s)) = nextMilestoneIndex s"
    and "plankDuration (snd (Plank_validate n1 n2 p s)) = plankDuration s"
    and "plankStartTime (snd (Plank_validate n1 n2 p s)) = plankStartTime s"
    and "lastStableTime (snd (Plank_validate n1 n2 p s)) = lastStableTime s"
    and "\<not> completedRep (fst (Plank_validate n1 n2 p s))"
  using assms
  by (cases "Plank_visible p";
      auto simp: Plank_validate_state Plank_validate_unseen Plank_validate_completed
        Plank_track_state handleInvalidPose_flag)+

text \<open>
  Claim C5 says that an invalid stretch of at least 1000 ms ends the plank.  The
  validator compares with \<open>> 1000\<close>: below, the plank is held at 1000 and 2000, the
  sagging frames at 2000 and 3000 are scored 1/2 and are not judged valid, and after
  these 1000 ms the validator is still in position.
\<close>

theorem plank_debounce_counterexample:
  "map formScore (fst (Plank_run [(1000, 1000, goodPlank), (2000, 2000, goodPlank),
        (2000, 2000, sagging), (3000, 3000, sagging)] Plank_new)) = [3 / 4, 1, 1 / 2, 1 / 2]
   \<and> Plank_invalidStretch [(2000, 2000, sagging), (3000, 3000, sagging)]
        (snd (Plank_run [(1000, 1000, goodPlank), (2000, 2000, goodPlank)] Plank_new))
   \<and> isInPlankPosition
        (snd (Plank_run [(1000, 1000, goodPlank), (2000, 2000, goodPlank)] Plank_new))
   \<and> isInPlankPosition
        (snd (Plank_run [(1000, 1000, goodPlank), (2000, 2000, goodPlank),
           (2000, 2000, sagging), (3000, 3000, sagging)] Plank_new))"
  by (simp add: plank_eval)

text \<open>
  C5 as amended: over a contiguous stretch of frames none of which is judged valid (low
  confidence, unreliable landmarks or \<open>formScore\<close> at most 0.6), the plank validator stays
  in position iff it was in position and every frame of the stretch is read at most
  1000 ms after \<open>lastStableTime\<close>, the clock reading at the last frame judged valid while
  in position; a frame read more than 1000 ms after it clears \<open>isInPlankPosition\<close>.
  Either way no repetition is completed and \<open>repCount\<close>, \<open>nextMilestoneIndex\<close>, the
  duration, the start time and \<open>lastStableTime\<close> are unchanged.
\<close>

theorem plank_invalid_stretch:
  assumes "Plank_invalidStretch fs s"
  shows "isInPlankPosition (snd (Plank_run fs s))
           = (isInPlankPosition s \<and> (\<forall>n \<in> set (readings fs). n - lastStableTime s \<le> 1000))
         \<and> repCount (snd (Plank_run fs s)) = repCount s
         \<and> nextMilestoneIndex (snd (Plank_run fs s)) = nextMilestoneIndex s
         \<and> plankDuration (snd (Plank_run fs s)) = plankDuration s
         \<and> plankStartTime (snd (Plank_run fs s)) = plankStartTime s
         \<and> lastStableTime (snd (Plank_run fs s)) = lastStableTime s
         \<and> map completedRep (fst (Plank_run fs s)) = replicate (length fs) False"
  using assms
proof (induction fs arbitrary: s)
  case Nil
  then show ?case by (simp add: readings_def)
next
  case (Cons f fs)
  obtain n1 n2 p where f: "f = (n1, n2, p)" by (cases f)
  let ?s = "snd (Plank_validate n1 n2 p s)"
  from Cons.prems f have j: "\<not> Plank_judgedValid p s" and le: "n1 \<le> n2"
    and rest: "Plank_invalidStretch fs ?s"
    by simp_all
  note step = Plank_invalid_step [OF j le]
  from Cons.IH [OF rest] step show ?case
    by (auto simp: f readings_def)
qed

theorem plank_invalid_stretch_witness:
  "isInPlankPosition
      (snd (Plank_run [(1000, 1000, goodPlank), (6000, 6000, goodPlank)] Plank_new))
   \<and> repCount (snd (Plank_run [(1000, 1000, goodPlank), (6000, 6000, goodPlank)] Plank_new)) = 1
   \<and> lastStableTime
        (snd (Plank_run [(1000, 1000, goodPlank), (6000, 6000, goodPlank)] Plank_new)) = 6000
   \<and> Plank_invalidStretch [(6500, 6500, sagging), (7000, 7000, unclear)]
        (snd (Plank_run [(1000, 1000, goodPlank), (6000, 6000, goodPlank)] Plank_new))
   \<and> isInPlankPosition
        (snd (Plank_run [(6500, 6500, sagging), (7000, 7000, unclear)]
           (snd (Plank_run [(1000, 1000, goodPlank), (6000, 6000, goodPlank)] Plank_new))))
   \<and> Plank_invalidStretch [(6500, 6500, sagging), (7001, 7001, sagging)]
        (snd (Plank_run [(1000, 1000, goodPlank), (6000, 6000, goodPlank)] Plank_new))
   \<and> \<not> isInPlankPosition
        (snd (Plank_run [(6500, 6500, sagging), (7001, 7001, sagging)]
           (snd (Plank_run [(1000, 1000, goodPlank), (6000, 6000, goodPlank)] Plank_new))))
   \<and> repCount
        (snd (Plank_run [(6500, 6500, sagging), (7001, 7001, sagging)]
           (snd (Plank_run [(1000, 1000, goodPlank), (6000, 6000, goodPlank)] Plank_new)))) = 1"
proof -
  let ?s = "snd (Plank_run [(1000, 1000, goodPlank), (6000, 6000, goodPlank)] Plank_new)"
  have pre: "isInPlankPosition ?s" "repCount ?s = 1" "lastStableTime ?s = 6000"
    by (simp_all add: plank_eval)
  have a: "Plank_invalidStretch [(6500, 6500, sagging), (7000, 7000, unclear)] ?s"
    by (simp add: plank_eval)
  have b: "Plank_invalidStretch [(6500, 6500, sagging), (7001, 7001, sagging)] ?s"
    by (simp add: plank_eval)
  from plank_invalid_stretch [OF a] pre
  have A: "isInPlankPosition (snd (Plank_run [(6500, 6500, sagging), (7000, 7000, unclear)] ?s))"
    by (simp add: readings_def del: Plank_run_Cons)
  from plank_invalid_stretch [OF b] pre
  have B: "\<not> isInPlankPosition
        (snd (Plank_run [(6500, 6500, sagging), (7001, 7001, sagging)] ?s))"
      "repCount (snd (Plank_run [(6500, 6500, sagging), (7001, 7001, sagging)] ?s)) = 1"
    by (simp_all add: readings_def del: Plank_run_Cons)
  from pre a b A B show ?thesis by (simp only: simp_thms)
qed

subsection \<open>C6: the plank milestones\<close>

lemma Plank_run_append:
  "fst (Plank_run (fs @ gs) s) = fst (Plank_run fs s) @ fst (Plank_run gs (snd (Plank_run fs s)))"
  "snd (Plank_run (fs @ gs) s) = snd (Plank_run gs (snd (Plank_run fs s)))"
  by (induction fs arbitrary: s) auto

lemma Plank_validHold_append:
  "Plank_validHold (fs @ gs) s
     = (Plank_validHold fs s \<and> Plank_validHold gs (snd (Plank_run fs s)))"
  by (induction fs arbitrary: s) auto

lemma Plank_hold_step:
  assumes "Plank_judgedValid p s" "isInPlankPosition s"
  shows "isInPlankPosition (snd (Plank_validate n1 n2 p s))"
    and "plankStartTime (snd (Plank_validate n1 n2 p s)) = plankStartTime s"
    and "completedRep (fst (Plank_validate n1 n2 p s)) =
           (nextMilestoneIndex s < length milestoneDurations
            \<and> n1 - plankStartTime s \<ge> milestoneDurations ! nextMilestoneIndex s)"
  using assms
  by (simp_all add: Plank_validate_state Plank_validate_completed Plank_track_state Let_def
      Plank_judgedValid_def)

lemma Plank_hold_quiet:
  assumes "Plank_validHold fs s" "isInPlankPosition s"
    and "nextMilestoneIndex s < length milestoneDurations"
    and "\<forall>n \<in> set (readings fs). n - plankStartTime s < milestoneDurations ! nextMilestoneIndex s"
  shows "isInPlankPosition (snd (Plank_run fs s))
         \<and> plankStartTime (snd (Plank_run fs s)) = plankStartTime s
         \<and> nextMilestoneIndex (snd (Plank_run fs s)) = nextMilestoneIndex s
         \<and> repCount (snd (Plank_run fs s)) = repCount s
         \<and> map completedRep (fst (Plank_run fs s)) = replicate (length fs) False"
  using assms
proof (induction fs arbitrary: s)
  case Nil
  then show ?case by simp
next
  case (Cons f fs)
  obtain n1 n2 p where f: "f = (n1, n2, p)" by (cases f)
  let ?s = "snd (Plank_validate n1 n2 p s)"
  from Cons.prems f have j: "Plank_judgedValid p s" and h: "Plank_validHold fs ?s"
    by simp_all
  from Cons.prems f have early:
    "n1 - plankStartTime s < milestoneDurations ! nextMilestoneIndex s"
    by (simp add: readings_def)
  note step = Plank_hold_step [OF j Cons.prems(2), of n1 n2]
  from step early have c: "\<not> completedRep (fst (Plank_validate n1 n2 p s))" by simp
  then have same: "nextMilestoneIndex ?s = nextMilestoneIndex s" "repCount ?s = repCount s"
    by (simp_all add: Plank_index_step Plank_repCount_step)
  have "\<forall>n \<in> set (readings fs).
          n - plankStartTime ?s < milestoneDurations ! nextMilestoneIndex ?s"
    using Cons.prems(4) f step(2) same by (simp add: readings_def)
  with Cons.IH [OF h step(1)] Cons.prems(3) same step(2) c show ?case
    by (simp add: f)
qed

text \<open>
  Claim C6: the milestone table is 5000, 10000, 20000, 30000 and 60000 ms.  On a frame
  judged valid while the validator is in position, \<open>completedRep\<close> is true iff there is a
  milestone left and the time since the plank started has reached it; a frame with
  \<open>completedRep\<close> adds one to \<open>repCount\<close> and to \<open>nextMilestoneIndex\<close>, any other frame
  leaves both alone, so over every sequence of calls the index never decreases (only
  \<open>reset\<close> puts it back to 0) and no milestone fires twice.  In a continuous hold
  started at \<open>t0\<close>, with a frame at \<open>t0 + 5000\<close> and a frame at \<open>t0 + 10000\<close> and any
  valid frames before and between them, exactly those two frames complete a repetition:
  \<open>repCount\<close> is 1 after the first and 2 after the second.
\<close>

theorem plank_milestones:
  "milestoneDurations = [5000, 10000, 20000, 30000, 60000]
   \<and> (Plank_judgedValid p s \<and> isInPlankPosition s \<longrightarrow>
        completedRep (fst (Plank_validate n1 n2 p s)) =
          (nextMilestoneIndex s < length milestoneDurations
           \<and> n1 - plankStartTime s \<ge> milestoneDurations ! nextMilestoneIndex s))
   \<and> repCount (snd (Plank_validate n1 n2 q s)) =
        (if completedRep (fst (Plank_validate n1 n2 q s)) then repCount s + 1 else repCount s)
   \<and> nextMilestoneIndex (snd (Plank_validate n1 n2 q s)) =
        (if completedRep (fst (Plank_validate n1 n2 q s))
         then nextMilestoneIndex s + 1 else nextMilestoneIndex s)
   \<and> nextMilestoneIndex s \<le> nextMilestoneIndex (snd (Plank_run fs s))
   \<and> nextMilestoneIndex (Plank_reset s) = 0
   \<and> (Plank_validHold
          ((t0, m0, p0) # fs1 @ [(t0 + 5000, m1, p1)] @ fs2 @ [(t0 + 10000, m2, p2)]) Plank_new
       \<and> (\<forall>n \<in> set (readings fs1). n < t0 + 5000)
       \<and> (\<forall>n \<in> set (readings fs2). n < t0 + 10000) \<longrightarrow>
        map completedRep (fst (Plank_run
            ((t0, m0, p0) # fs1 @ [(t0 + 5000, m1, p1)] @ fs2 @ [(t0 + 10000, m2, p2)])
            Plank_new))
          = False # replicate (length fs1) False @ [True] @ replicate (length fs2) False @ [True]
        \<and> repCount (snd (Plank_run ((t0, m0, p0) # fs1 @ [(t0 + 5000, m1, p1)]) Plank_new)) = 1
        \<and> repCount (snd (Plank_run
            ((t0, m0, p0) # fs1 @ [(t0 + 5000, m1, p1)] @ fs2 @ [(t0 + 10000, m2, p2)])
            Plank_new)) = 2
        \<and> nextMilestoneIndex (snd (Plank_run
            ((t0, m0, p0) # fs1 @ [(t0 + 5000, m1, p1)] @ fs2 @ [(t0 + 10000, m2, p2)])
            Plank_new)) = 2)"
proof (intro conjI impI)
  show "milestoneDurations = [5000, 10000, 20000, 30000, 60000]"
    by (simp add: milestoneDurations_def)
next
  assume "Plank_judgedValid p s \<and> isInPlankPosition s"
  then show "completedRep (fst (Plank_validate n1 n2 p s)) =
      (nextMilestoneIndex s < length milestoneDurations
       \<and> n1 - plankStartTime s \<ge> milestoneDurations ! nextMilestoneIndex s)"
    by (simp add: Plank_hold_step)
next
  show "repCount (snd (Plank_validate n1 n2 q s)) =
      (if completedRep (fst (Plank_validate n1 n2 q s)) then repCount s + 1 else repCount s)"
    by (rule Plank_repCount_step)
next
  show "nextMilestoneIndex (snd (Plank_validate n1 n2 q s)) =
      (if completedRep (fst (Plank_validate n1 n2 q s))
       then nextMilestoneIndex s + 1 else nextMilestoneIndex s)"
    by (rule Plank_index_step)
next
  show "nextMilestoneIndex s \<le> nextMilestoneIndex (snd (Plank_run fs s))"
    using Plank_run_mono [of s fs] by simp
next
  show "nextMilestoneIndex (Plank_reset s) = 0"
    by (simp add: Plank_reset_def)
next
  assume a: "Plank_validHold
      ((t0, m0, p0) # fs1 @ [(t0 + 5000, m1, p1)] @ fs2 @ [(t0 + 10000, m2, p2)]) Plank_new
    \<and> (\<forall>n \<in> set (readings fs1). n < t0 + 5000)
    \<and> (\<forall>n \<in> set (readings fs2). n < t0 + 10000)"
  let ?s0 = "snd (Plank_validate t0 m0 p0 Plank_new)"
  let ?sA = "snd (Plank_run fs1 ?s0)"
  let ?sB = "snd (Plank_validate (t0 + 5000) m1 p1 ?sA)"
  let ?sC = "snd (Plank_run fs2 ?sB)"
  let ?sD = "snd (Plank_validate (t0 + 10000) m2 p2 ?sC)"
  from a have j0: "Plank_judgedValid p0 Plank_new" and hA: "Plank_validHold fs1 ?s0"
    and jB: "Plank_judgedValid p1 ?sA" and hC: "Plank_validHold fs2 ?sB"
    and jD: "Plank_judgedValid p2 ?sC"
    by (simp_all add: Plank_validHold_append Plank_run_append)
  have s0: "isInPlankPosition ?s0" "plankStartTime ?s0 = t0" "nextMilestoneIndex ?s0 = 0"
    "repCount ?s0 = 0" "\<not> completedRep (fst (Plank_validate t0 m0 p0 Plank_new))"
    using j0 by (simp_all add: Plank_validate_state Plank_validate_completed Plank_track_state
        Plank_judgedValid_def) (simp_all add: Plank_new_def)
  from a have b1: "\<forall>n \<in> set (readings fs1). n < t0 + 5000"
    and b2: "\<forall>n \<in> set (readings fs2). n < t0 + 10000"
    by blast+
  have qA: "\<forall>n \<in> set (readings fs1).
      n - plankStartTime ?s0 < milestoneDurations ! nextMilestoneIndex ?s0"
    using b1 by (auto simp: s0 milestoneDurations_def)
  have sA: "isInPlankPosition ?sA" "plankStartTime ?sA = t0" "nextMilestoneIndex ?sA = 0"
    "repCount ?sA = 0" "map completedRep (fst (Plank_run fs1 ?s0)) = replicate (length fs1) False"
    using Plank_hold_quiet [OF hA s0(1) _ qA] by (simp_all add: s0 milestoneDurations_def)
  have cB: "completedRep (fst (Plank_validate (t0 + 5000) m1 p1 ?sA))"
    using Plank_hold_step(3) [OF jB sA(1), of "t0 + 5000" m1]
    by (simp add: sA milestoneDurations_def)
  have sB: "isInPlankPosition ?sB" "plankStartTime ?sB = t0" "nextMilestoneIndex ?sB = 1"
    "repCount ?sB = 1"
    using Plank_hold_step(1,2) [OF jB sA(1), of "t0 + 5000" m1] cB
    by (simp_all add: Plank_index_step Plank_repCount_step sA)
  have qC: "\<forall>n \<in> set (readings fs2).
      n - plankStartTime ?sB < milestoneDurations ! nextMilestoneIndex ?sB"
    using b2 by (auto simp: sB milestoneDurations_def)
  have sC: "isInPlankPosition ?sC" "plankStartTime ?sC = t0" "nextMilestoneIndex ?sC = 1"
    "repCount ?sC = 1" "map completedRep (fst (Plank_run fs2 ?sB)) = replicate (length fs2) False"
    using Plank_hold_quiet [OF hC sB(1) _ qC] by (simp_all add: sB milestoneDurations_def)
  have cD: "completedRep (fst (Plank_validate (t0 + 10000) m2 p2 ?sC))"
    using Plank_hold_step(3) [OF jD sC(1), of "t0 + 10000" m2]
    by (simp add: sC milestoneDurations_def)
  have sD: "repCount ?sD = 2" "nextMilestoneIndex ?sD = 2"
    using cD by (simp_all add: Plank_repCount_step Plank_index_step sC)
  show "map completedRep (fst (Plank_run
            ((t0, m0, p0) # fs1 @ [(t0 + 5000, m1, p1)] @ fs2 @ [(t0 + 10000, m2, p2)])
            Plank_new))
          = False # replicate (length fs1) False @ [True] @ replicate (length fs2) False @ [True]"
    using s0(5) sA(5) cB sC(5) cD by (simp add: Plank_run_append)
  show "repCount (snd (Plank_run ((t0, m0, p0) # fs1 @ [(t0 + 5000, m1, p1)]) Plank_new)) = 1"
    using sB(4) by (simp add: Plank_run_append)
  show "repCount (snd (Plank_run
            ((t0, m0, p0) # fs1 @ [(t0 + 5000, m1, p1)] @ fs2 @ [(t0 + 10000, m2, p2)])
            Plank_new)) = 2"
    using sD by (simp add: Plank_run_append)
  show "nextMilestoneIndex (snd (Plank_run
            ((t0, m0, p0) # fs1 @ [(t0 + 5000, m1, p1)] @ fs2 @ [(t0 + 10000, m2, p2)])
            Plank_new)) = 2"
    using sD by (simp add: Plank_run_append)
qed

theorem plank_milestones_witness:
  "Plank_validHold [(1000, 1000, goodPlank), (3000, 3000, goodPlank), (6000, 6000, goodPlank),
        (8000, 8000, goodPlank), (11000, 11000, goodPlank)] Plank_new
   \<and> map completedRep (fst (Plank_run [(1000, 1000, goodPlank), (3000, 3000, goodPlank),
        (6000, 6000, goodPlank), (8000, 8000, goodPlank), (11000, 11000, goodPlank)]
        Plank_new)) = [False, False, True, False, True]
   \<and> repCount (snd (Plank_run [(1000, 1000, goodPlank), (3000, 3000, goodPlank),
        (6000, 6000, goodPlank)] Plank_new)) = 1
   \<and> repCount (snd (Plank_run [(1000, 1000, goodPlank), (3000, 3000, goodPlank),
        (6000, 6000, goodPlank), (8000, 8000, goodPlank), (11000, 11000, goodPlank)]
        Plank_new)) = 2
   \<and> Plank_judgedValid goodPlank (snd (Plank_run [(1000, 1000, goodPlank)] Plank_new))
   \<and> isInPlankPosition (snd (Plank_run [(1000, 1000, goodPlank)] Plank_new))
   \<and> completedRep (fst (Plank_validate 6000 6000 goodPlank
        (snd (Plank_run [(1000, 1000, goodPlank)] Plank_new))))"
proof -
  let ?s = "snd (Plank_run [(1000, 1000, goodPlank)] Plank_new)"
  have hold: "Plank_validHold [(1000, 1000, goodPlank), (3000, 3000, goodPlank),
      (6000, 6000, goodPlank), (8000, 8000, goodPlank), (11000, 11000, goodPlank)] Plank_new"
    by (simp add: plank_eval)
  have pre: "Plank_judgedValid goodPlank ?s" "isInPlankPosition ?s"
    "nextMilestoneIndex ?s = 0" "plankStartTime ?s = 1000"
    by (simp_all add: plank_eval)
  note T = plank_milestones [where p = goodPlank and s = ?s and ?n1.0 = 6000 and ?n2.0 = 6000
      and ?t0.0 = 1000 and ?m0.0 = 1000 and ?p0.0 = goodPlank
      and ?fs1.0 = "[(3000, 3000, goodPlank)]" and ?m1.0 = 6000 and ?p1.0 = goodPlank
      and ?fs2.0 = "[(8000, 8000, goodPlank)]" and ?m2.0 = 11000 and ?p2.0 = goodPlank]
  note T2 = T [THEN conjunct2, THEN conjunct1]
  note T7 = T [THEN conjunct2, THEN conjunct2, THEN conjunct2, THEN conjunct2, THEN conjunct2,
      THEN conjunct2]
  from T2 pre have c: "completedRep (fst (Plank_validate 6000 6000 goodPlank ?s))"
    by (simp add: milestoneDurations_def del: Plank_run_Cons)
  have H: "Plank_validHold
      ((1000, 1000, goodPlank) # [(3000, 3000, goodPlank)] @ [(1000 + 5000, 6000, goodPlank)]
        @ [(8000, 8000, goodPlank)] @ [(1000 + 10000, 11000, goodPlank)]) Plank_new
    \<and> (\<forall>n \<in> set (readings [(3000, 3000, goodPlank)]). n < 1000 + 5000)
    \<and> (\<forall>n \<in> set (readings [(8000, 8000, goodPlank)]). n < 1000 + 10000)"
    using hold by (simp add: readings_def)
  have "map completedRep (fst (Plank_run [(1000, 1000, goodPlank), (3000, 3000, goodPlank),
        (6000, 6000, goodPlank), (8000, 8000, goodPlank), (11000, 11000, goodPlank)]
        Plank_new)) = [False, False, True, False, True]
     \<and> repCount (snd (Plank_run [(1000, 1000, goodPlank), (3000, 3000, goodPlank),
        (6000, 6000, goodPlank)] Plank_new)) = 1
     \<and> repCount (snd (Plank_run [(1000, 1000, goodPlank), (3000, 3000, goodPlank),
        (6000, 6000, goodPlank), (8000, 8000, goodPlank), (11000, 11000, goodPlank)]
        Plank_new)) = 2"
    using T7 [THEN mp, OF H] by simp
  with hold pre c show ?thesis by (simp only: simp_thms)
qed

subsection \<open>C7: the clock\<close>

lemma getLandmark_timestamp [simp]:
  "getLandmark (p\<lparr>timestamp := t\<rparr>) i = getLandmark p i"
  by (simp add: getLandmark_def)

lemma frame_timestamp [simp]:
  "PushUp_requiredLandmarks (p\<lparr>timestamp := t\<rparr>) = PushUp_requiredLandmarks p"
  "ChinUp_requiredLandmarks (p\<lparr>timestamp := t\<rparr>) = ChinUp_requiredLandmarks p"
  "Plank_requiredLandmarks (p\<lparr>timestamp := t\<rparr>) = Plank_requiredLandmarks p"
  "frame_leftArmAngle (p\<lparr>timestamp := t\<rparr>) = frame_leftArmAngle p"
  "frame_rightArmAngle (p\<lparr>timestamp := t\<rparr>) = frame_rightArmAngle p"
  "PushUp_bodyAlignmentScore (p\<lparr>timestamp := t\<rparr>) = PushUp_bodyAlignmentScore p"
  "ChinUp_bodyPositionScore (p\<lparr>timestamp := t\<rparr>) = ChinUp_bodyPositionScore p"
  "ChinUp_chinOverBarScore (p\<lparr>timestamp := t\<rparr>) = ChinUp_chinOverBarScore p"
  "Plank_bodyAlignmentScore (p\<lparr>timestamp := t\<rparr>) = Plank_bodyAlignmentScore p"
  "Plank_elbowPositionScore (p\<lparr>timestamp := t\<rparr>) = Plank_elbowPositionScore p"
  "Plank_hipPositionScore (p\<lparr>timestamp := t\<rparr>) = Plank_hipPositionScore p"
  by (simp_all add: PushUp_requiredLandmarks_def ChinUp_requiredLandmarks_def
      Plank_requiredLandmarks_def frame_leftArmAngle_def frame_rightArmAngle_def
      PushUp_bodyAlignmentScore_def ChinUp_bodyPositionScore_def ChinUp_chinOverBarScore_def
      Plank_bodyAlignmentScore_def Plank_elbowPositionScore_def Plank_hipPositionScore_def)

lemma frame_timestamp' [simp]:
  "frame_avgArmAngle (p\<lparr>timestamp := t\<rparr>) = frame_avgArmAngle p"
  "frame_armSymmetryScore (p\<lparr>timestamp := t\<rparr>) = frame_armSymmetryScore p"
  "PushUp_formScore (p\<lparr>timestamp := t\<rparr>) = PushUp_formScore p"
  "ChinUp_formCriteria (p\<lparr>timestamp := t\<rparr>) = ChinUp_formCriteria p"
  "Plank_formCriteria ps (p\<lparr>timestamp := t\<rparr>) = Plank_formCriteria ps p"
  by (simp_all add: frame_avgArmAngle_def frame_armSymmetryScore_def PushUp_formScore_def
      PushUp_formCriteria_def ChinUp_formCriteria_def Plank_formCriteria_def)

lemma pairMovements_timestamp [simp]:
  "pairMovements (a\<lparr>timestamp := t\<rparr>) (b\<lparr>timestamp := u\<rparr>) = pairMovements a b"
  by (simp add: pairMovements_def)

lemma calculatePoseStability_timestamp [simp]:
  "calculatePoseStability (map (\<lambda>q. q\<lparr>timestamp := 0\<rparr>) ps) = calculatePoseStability ps"
proof -
  have "map (\<lambda>(a, b). pairMovements a b)
          (zip (map (\<lambda>q. q\<lparr>timestamp := 0\<rparr>) ps) (tl (map (\<lambda>q. q\<lparr>timestamp := 0\<rparr>) ps)))
        = map (\<lambda>(a, b). pairMovements a b) (zip ps (tl ps))"
    by (simp add: map_tl [symmetric] zip_map_map split_def o_def)
  then show ?thesis
    by (simp add: calculatePoseStability_def)
qed

lemma Plank_formCriteria_timestamp [simp]:
  "Plank_formCriteria (map (\<lambda>q. q\<lparr>timestamp := 0\<rparr>) ps) p = Plank_formCriteria ps p"
  by (simp add: Plank_formCriteria_def)

lemma forgetTimestamps_sel [simp]:
  "repCount (forgetTimestamps s) = repCount s"
  "isInPosition (forgetTimestamps s) = isInPosition s"
  "lastValidationTime (forgetTimestamps s) = lastValidationTime s"
  "validationHistory (forgetTimestamps s) = validationHistory s"
  "plankStartTime (forgetTimestamps s) = plankStartTime s"
  "plankDuration (forgetTimestamps s) = plankDuration s"
  "isInPlankPosition (forgetTimestamps s) = isInPlankPosition s"
  "lastStableTime (forgetTimestamps s) = lastStableTime s"
  "nextMilestoneIndex (forgetTimestamps s) = nextMilestoneIndex s"
  "recentPoses (forgetTimestamps s) = map (\<lambda>q. q\<lparr>timestamp := 0\<rparr>) (recentPoses s)"
  by (simp_all add: forgetTimestamps_def)

lemma forgetTimestamps_steps:
  "addToRecentPoses (p\<lparr>timestamp := 0\<rparr>) (forgetTimestamps s)
     = forgetTimestamps (addToRecentPoses p s)"
  "handleInvalidPose n (forgetTimestamps s) = forgetTimestamps (handleInvalidPose n s)"
  "Plank_track v n1 n2 (forgetTimestamps s)
     = (fst (Plank_track v n1 n2 s), fst (snd (Plank_track v n1 n2 s)),
        forgetTimestamps (snd (snd (Plank_track v n1 n2 s))))"
  "addToValidationHistory v (forgetTimestamps s)
     = (fst (addToValidationHistory v s), forgetTimestamps (snd (addToValidationHistory v s)))"
  by (simp_all add: addToRecentPoses_def handleInvalidPose_def Plank_track_def
      addToValidationHistory_def forgetTimestamps_def Let_def map_tl)

lemma Plank_validate_forget:
  "Plank_validate n1 n2 (p\<lparr>timestamp := 0\<rparr>) (forgetTimestamps s)
     = (fst (Plank_validate n1 n2 p s), forgetTimestamps (snd (Plank_validate n1 n2 p s)))"
  by (simp add: Plank_validate_def Let_def split_def forgetTimestamps_steps)

text \<open>
  Claim C7 says that a validator never reads the system clock, so that two runs over the
  same frames from the same state agree.  Every timing decision reads \<open>Date.now()\<close>: the
  two sessions below run over the same two frames from the initial state and differ in
  the clock readings only; the second completes a repetition, the first does not.
\<close>

theorem clock_dependence_counterexample:
  "map completedRep
     (fst (Plank_run [(1000, 1000, goodPlank), (3000, 3000, goodPlank)] Plank_new))
     = [False, False]
   \<and> map completedRep
     (fst (Plank_run [(1000, 1000, goodPlank), (7000, 7000, goodPlank)] Plank_new))
     = [False, True]
   \<and> repCount (snd (Plank_run [(1000, 1000, goodPlank), (3000, 3000, goodPlank)] Plank_new)) = 0
   \<and> repCount (snd (Plank_run [(1000, 1000, goodPlank), (7000, 7000, goodPlank)] Plank_new)) = 1"
  by (simp add: plank_eval)

text \<open>
  C7 as amended: the result and the next state of \<open>validate\<close> are determined by the
  state, the landmarks and the confidence of the frame, and the readings of \<open>Date.now()\<close>
  taken during the call; the timestamp of the frame is never read.  Changing the
  timestamp of a frame changes neither the result nor the next state of the push-up and
  the chin-up validator; for the plank validator it changes nothing but the timestamps
  kept in the recorded poses, which no later call reads.
\<close>

theorem validate_ignores_timestamp:
  "PushUp_validate now (p\<lparr>timestamp := t\<rparr>) s = PushUp_validate now p s
   \<and> ChinUp_validate now (p\<lparr>timestamp := t\<rparr>) c = ChinUp_validate now p c
   \<and> (forgetTimestamps k = forgetTimestamps k' \<longrightarrow>
        fst (Plank_validate n1 n2 (p\<lparr>timestamp := t\<rparr>) k) = fst (Plank_validate n1 n2 p k')
        \<and> forgetTimestamps (snd (Plank_validate n1 n2 (p\<lparr>timestamp := t\<rparr>) k))
            = forgetTimestamps (snd (Plank_validate n1 n2 p k')))"
proof (intro conjI impI)
  show "PushUp_validate now (p\<lparr>timestamp := t\<rparr>) s = PushUp_validate now p s"
    by (simp add: PushUp_validate_def)
  show "ChinUp_validate now (p\<lparr>timestamp := t\<rparr>) c = ChinUp_validate now p c"
    by (simp add: ChinUp_validate_def)
next
  assume e: "forgetTimestamps k = forgetTimestamps k'"
  have "Plank_validate n1 n2 ((p\<lparr>timestamp := t\<rparr>)\<lparr>timestamp := 0\<rparr>) (forgetTimestamps k)
      = Plank_validate n1 n2 (p\<lparr>timestamp := 0\<rparr>) (forgetTimestamps k')"
    by (simp add: e)
  then have "(fst (Plank_validate n1 n2 (p\<lparr>timestamp := t\<rparr>) k),
              forgetTimestamps (snd (Plank_validate n1 n2 (p\<lparr>timestamp := t\<rparr>) k)))
      = (fst (Plank_validate n1 n2 p k'), forgetTimestamps (snd (Plank_validate n1 n2 p k')))"
    by (simp only: Plank_validate_forget)
  then show "fst (Plank_validate n1 n2 (p\<lparr>timestamp := t\<rparr>) k) = fst (Plank_validate n1 n2 p k')"
    and "forgetTimestamps (snd (Plank_validate n1 n2 (p\<lparr>timestamp := t\<rparr>) k))
            = forgetTimestamps (snd (Plank_validate n1 n2 p k'))"
    by simp_all
qed

theorem validate_ignores_timestamp_witness:
  "forgetTimestamps (snd (Plank_validate 1000 1000 (goodPlank\<lparr>timestamp := 5\<rparr>) Plank_new))
     = forgetTimestamps (snd (Plank_validate 1000 1000 goodPlank Plank_new))
   \<and> fst (Plank_validate 2000 2000 (goodPlank\<lparr>timestamp := 7\<rparr>)
        (snd (Plank_validate 1000 1000 (goodPlank\<lparr>timestamp := 5\<rparr>) Plank_new)))
     = fst (Plank_validate 2000 2000 goodPlank
        (snd (Plank_validate 1000 1000 goodPlank Plank_new)))"
proof -
  note A = validate_ignores_timestamp [where p = goodPlank and t = 5 and k = Plank_new
      and k' = Plank_new and ?n1.0 = 1000 and ?n2.0 = 1000]
  then have a: "forgetTimestamps (snd (Plank_validate 1000 1000 (goodPlank\<lparr>timestamp := 5\<rparr>)
        Plank_new)) = forgetTimestamps (snd (Plank_validate 1000 1000 goodPlank Plank_new))"
    by blast
  note B = validate_ignores_timestamp [where p = goodPlank and t = 7
      and k = "snd (Plank_validate 1000 1000 (goodPlank\<lparr>timestamp := 5\<rparr>) Plank_new)"
      and k' = "snd (Plank_validate 1000 1000 goodPlank Plank_new)"
      and ?n1.0 = 2000 and ?n2.0 = 2000]
  with a show ?thesis by blast
qed

subsection \<open>C8: the chin over the bar\<close>

lemma chinOverBarThreshold_value: "chinOverBarThreshold = Fin (3602879701896397 / 2 ^ 56)"
  unfolding chinOverBarThreshold_def
  by (subst round64_eval [where k = "-5"]) (simp_all add: round64_calc)

lemma chinOverBarThreshold_bounds:
  obtains c where "chinOverBarThreshold = Fin c" "0 < c" "c \<le> 1"
  using chinOverBarThreshold_value by simp

lemma tie_inputs:
  "is_double (7656119366529844 / 2 ^ 56)"
  "is_double (5 / 32)"
  "is_double (5629499534213121 / 2 ^ 55)"
  unfolding is_double_def
  by (subst round64_eval [where k = "-4"], simp_all add: round64_calc)
     (subst round64_eval [where k = "-3"], simp_all add: round64_calc)+

lemma tie_mean:
  "q_div (q_add (Fin (5 / 32)) (Fin (5629499534213121 / 2 ^ 55))) (Fin 2) = Fin (5 / 32)"
proof -
  have "round64 (5 / 32 + 5629499534213121 / 2 ^ 55) = Fin (5 / 16)"
    by (subst round64_eval [where k = "-2"]) (simp_all add: round64_calc)
  moreover have "round64 (5 / 16 / 2) = Fin (5 / 32)"
    by (subst round64_eval [where k = "-3"]) (simp_all add: round64_calc)
  ultimately show ?thesis by simp
qed

lemma lm_ly: "ly (lm a b) = b"
  by (simp add: lm_def)

lemma checkChinOverBar_of_mean:
  assumes "q_div (q_add (Fin (ly leftWrist)) (Fin (ly rightWrist))) (Fin 2) = Fin m"
    and "ly nose < m"
    and "round64 (m - ly nose) = Fin d"
    and "chinOverBarThreshold = Fin c" "c \<noteq> 0"
    and "round64 (d / c) = Fin s" "s < 1"
  shows "checkChinOverBar nose leftWrist rightWrist = Fin s"
  unfolding checkChinOverBar_def Let_def q_sub_def assms(1) assms(4)
  using assms(2,3,5,6,7) by (simp add: q_min_def)

lemma tie_score:
  "checkChinOverBar (lm (1 / 2) (7656119366529844 / 2 ^ 56)) (lm (1 / 2) (5 / 32))
     (lm (1 / 2) (5629499534213121 / 2 ^ 55)) = Fin (1 - 1 / 2 ^ 52)"
proof (rule checkChinOverBar_of_mean [where m = "5 / 32"
      and d = "3602879701896396 / 2 ^ 56" and c = "3602879701896397 / 2 ^ 56"])
  show "q_div (q_add (Fin (ly (lm (1 / 2) (5 / 32))))
                 (Fin (ly (lm (1 / 2) (5629499534213121 / 2 ^ 55))))) (Fin 2) = Fin (5 / 32)"
    unfolding lm_ly by (rule tie_mean)
  show "ly (lm (1 / 2) (7656119366529844 / 2 ^ 56)) < 5 / 32"
    by (simp add: lm_ly)
  show "round64 (5 / 32 - ly (lm (1 / 2) (7656119366529844 / 2 ^ 56)))
          = Fin (3602879701896396 / 2 ^ 56)"
    unfolding lm_ly by (subst round64_eval [where k = "-5"]) (simp_all add: round64_calc)
  show "chinOverBarThreshold = Fin (3602879701896397 / 2 ^ 56)"
    by (rule chinOverBarThreshold_value)
  show "(3602879701896397 / 2 ^ 56 :: real) \<noteq> 0" by simp
  show "round64 (3602879701896396 / 2 ^ 56 / (3602879701896397 / 2 ^ 56))
          = Fin (1 - 1 / 2 ^ 52)"
    by (subst round64_eval [where k = "-1"]) (simp_all add: round64_calc)
  show "(1 - 1 / 2 ^ 52 :: real) < 1" by simp
qed

lemma tie_level:
  "checkChinOverBar (lm (1 / 2) (5 / 32)) (lm (1 / 2) (5 / 32))
     (lm (1 / 2) (5629499534213121 / 2 ^ 55)) = Fin 0"
  unfolding checkChinOverBar_def Let_def lm_def Landmark3D.simps tie_mean
  by simp

text \<open>
  Claim C8 says that \<open>checkChinOverBar\<close> is 0 when \<open>nose.y\<close> is at least the mean of the
  wrists' \<open>y\<close>, and otherwise the clearance divided by 0.05 and capped at 1, a value in
  \<open>(0, 1]\<close> that is 1 whenever the clearance is at least 0.05.  The code computes the mean
  and the clearance in binary64, and the claim fails of the exact mean and clearance.
  With the wrists at \<open>5/32\<close> and \<open>5/32 + 2\<^sup>-\<^sup>5\<^sup>5\<close> the sum is a tie that rounds to even, so
  the computed mean is \<open>5/32\<close>, below the exact mean.  For the nose below, the exact
  clearance is the binary64 value of the literal \<open>0.05\<close>, which is more than \<open>1/20\<close>, but
  the computed clearance is smaller and the score is \<open>1 - 2\<^sup>-\<^sup>5\<^sup>2\<close>, not 1.  A nose at
  \<open>5/32\<close> is above the exact mean and the score is 0.
\<close>

theorem checkChinOverBar_rounding_counterexample:
  "is_double (7656119366529844 / 2 ^ 56) \<and> is_double (5 / 32)
   \<and> is_double (5629499534213121 / 2 ^ 55)
   \<and> (0.05 :: real) \<le> (5 / 32 + 5629499534213121 / 2 ^ 55) / 2 - 7656119366529844 / 2 ^ 56
   \<and> round64 0.05 = Fin ((5 / 32 + 5629499534213121 / 2 ^ 55) / 2 - 7656119366529844 / 2 ^ 56)
   \<and> checkChinOverBar (lm (1 / 2) (7656119366529844 / 2 ^ 56)) (lm (1 / 2) (5 / 32))
        (lm (1 / 2) (5629499534213121 / 2 ^ 55)) = Fin (1 - 1 / 2 ^ 52)
   \<and> Fin (1 - 1 / 2 ^ 52) \<noteq> Fin 1
   \<and> (5 / 32 :: real) < (5 / 32 + 5629499534213121 / 2 ^ 55) / 2
   \<and> checkChinOverBar (lm (1 / 2) (5 / 32)) (lm (1 / 2) (5 / 32))
        (lm (1 / 2) (5629499534213121 / 2 ^ 55)) = Fin 0"
proof -
  have "round64 0.05 = Fin ((5 / 32 + 5629499534213121 / 2 ^ 55) / 2 - 7656119366529844 / 2 ^ 56)"
    using chinOverBarThreshold_value by (simp add: chinOverBarThreshold_def)
  moreover have
    "(0.05 :: real) \<le> (5 / 32 + 5629499534213121 / 2 ^ 55) / 2 - 7656119366529844 / 2 ^ 56"
    "Fin (1 - 1 / 2 ^ 52) \<noteq> Fin 1"
    "(5 / 32 :: real) < (5 / 32 + 5629499534213121 / 2 ^ 55) / 2"
    by simp_all
  ultimately show ?thesis
    using tie_inputs tie_score tie_level by blast
qed

text \<open>
  Claim C8, amended: for coordinates that are binary64 values, with the mean of the
  wrists' \<open>y\<close> and the clearance as the code computes them, and the literal \<open>0.05\<close> as the
  binary64 value it denotes.  The computed mean and \<open>nose.y\<close> are always comparable;
  \<open>checkChinOverBar\<close> is 0 when the computed mean is at most \<open>nose.y\<close>; otherwise it is
  the computed clearance divided by 0.05 and capped at 1, greater than 0 and at most 1;
  and it is 1 whenever the computed clearance is at least 0.05.
\<close>

theorem checkChinOverBar_computed:
  assumes "is_double (ly nose)" "is_double (ly leftWrist)" "is_double (ly rightWrist)"
  shows "let mean = q_div (q_add (Fin (ly leftWrist)) (Fin (ly rightWrist))) (Fin 2);
             clearance = q_sub mean (Fin (ly nose));
             score = checkChinOverBar nose leftWrist rightWrist
         in (q_le mean (Fin (ly nose)) \<or> q_less (Fin (ly nose)) mean)
            \<and> (q_le mean (Fin (ly nose)) \<longrightarrow> score = Fin 0)
            \<and> (q_less (Fin (ly nose)) mean \<longrightarrow>
                  score = q_min (Fin 1) (q_div clearance (round64 0.05))
                  \<and> q_less (Fin 0) score \<and> q_le score (Fin 1))
            \<and> (q_le (round64 0.05) clearance \<longrightarrow> score = Fin 1)"
proof -
  obtain c where c: "chinOverBarThreshold = Fin c" "0 < c" "c \<le> 1"
    by (rule chinOverBarThreshold_bounds)
  define ny where "ny = ly nose"
  define wl where "wl = ly leftWrist"
  define wr where "wr = ly rightWrist"
  define score where "score = checkChinOverBar nose leftWrist rightWrist"
  have score: "score =
     (if \<not> q_less (Fin ny) (q_div (q_add (Fin wl) (Fin wr)) (Fin 2)) then Fin 0
      else q_min (Fin 1)
             (q_div (q_sub (q_div (q_add (Fin wl) (Fin wr)) (Fin 2)) (Fin ny)) (Fin c)))"
    by (simp add: score_def checkChinOverBar_def Let_def ny_def wl_def wr_def c(1))
  from assms(1) obtain N :: int where ny: "ny = of_int N * 2 powi emin"
    using round64_grid [of ny ny] by (auto simp: is_double_def ny_def)
  have "(q_le (q_div (q_add (Fin wl) (Fin wr)) (Fin 2)) (Fin ny)
          \<or> q_less (Fin ny) (q_div (q_add (Fin wl) (Fin wr)) (Fin 2)))
        \<and> (q_le (q_div (q_add (Fin wl) (Fin wr)) (Fin 2)) (Fin ny) \<longrightarrow> score = Fin 0)
        \<and> (q_less (Fin ny) (q_div (q_add (Fin wl) (Fin wr)) (Fin 2)) \<longrightarrow>
              score = q_min (Fin 1)
                (q_div (q_sub (q_div (q_add (Fin wl) (Fin wr)) (Fin 2)) (Fin ny)) (Fin c))
              \<and> q_less (Fin 0) score \<and> q_le score (Fin 1))
        \<and> (q_le (Fin c) (q_sub (q_div (q_add (Fin wl) (Fin wr)) (Fin 2)) (Fin ny))
              \<longrightarrow> score = Fin 1)"
  proof (cases rule: mean_cases [of wl wr])
    case (1 m)
    then obtain M :: int where m: "m = of_int M * 2 powi emin" by blast
    show ?thesis
    proof (cases "ny < m")
      case True
      from grid_gap [OF ny m True] have gap: "2 powi emin \<le> m - ny" .
      from round64_ge_power [OF gap order_refl] show ?thesis
      proof
        assume inf: "round64 (m - ny) = PosInf"
        with 1(1) True c(2) show ?thesis
          by (simp add: score q_sub_def q_min_def)
      next
        assume "\<exists>d. round64 (m - ny) = Fin d \<and> 2 powi emin \<le> d"
        then obtain d where d: "round64 (m - ny) = Fin d" "2 powi emin \<le> d" by blast
        from score_of_clearance [OF d(2) c(2,3)] 1(1) True d(1) show ?thesis
          by (simp add: score q_sub_def)
      qed
    next
      case False
      then have "m - ny \<le> 0" by simp
      from round64_nonpos [OF this] have "\<not> q_le (Fin c) (round64 (m - ny))"
        using c(2) by auto
      with 1(1) False show ?thesis
        by (simp add: score q_sub_def)
    qed
  next
    case 2
    with c(2) show ?thesis by (simp add: score q_sub_def q_min_def)
  next
    case 3
    then show ?thesis by (simp add: score q_sub_def)
  qed
  then have "let mean = q_div (q_add (Fin wl) (Fin wr)) (Fin 2);
                 clearance = q_sub mean (Fin ny)
             in (q_le mean (Fin ny) \<or> q_less (Fin ny) mean)
                \<and> (q_le mean (Fin ny) \<longrightarrow> score = Fin 0)
                \<and> (q_less (Fin ny) mean \<longrightarrow>
                      score = q_min (Fin 1) (q_div clearance chinOverBarThreshold)
                      \<and> q_less (Fin 0) score \<and> q_le score (Fin 1))
                \<and> (q_le chinOverBarThreshold clearance \<longrightarrow> score = Fin 1)"
    unfolding Let_def c(1) .
  then show ?thesis
    unfolding Let_def chinOverBarThreshold_def ny_def wl_def wr_def score_def .
qed

theorem checkChinOverBar_computed_witness:
  "is_double (1 / 2) \<and> is_double (15 / 32) \<and> is_double (1 / 4)
   \<and> checkChinOverBar (lm (1 / 2) (1 / 2)) (lm (1 / 4) (1 / 2)) (lm (3 / 4) (1 / 2)) = Fin 0
   \<and> checkChinOverBar (lm (1 / 2) (15 / 32)) (lm (1 / 4) (1 / 2)) (lm (3 / 4) (1 / 2))
       = Fin (5 / 8)
   \<and> checkChinOverBar (lm (1 / 2) (1 / 4)) (lm (1 / 4) (1 / 2)) (lm (3 / 4) (1 / 2)) = Fin 1"
proof -
  have dbl: "is_double (1 / 2)" "is_double (15 / 32)" "is_double (1 / 4)"
    unfolding is_double_def
    by (subst round64_eval [where k = "-1"], simp_all add: round64_calc)
       (subst round64_eval [where k = "-2"], simp_all add: round64_calc)+
  have mean: "q_div (q_add (Fin (1 / 2)) (Fin (1 / 2))) (Fin 2) = Fin (1 / 2)"
    by (simp add: round64_values)
  have gap: "q_sub (Fin (1 / 2)) (Fin (15 / 32)) = Fin (1 / 32)"
    "q_sub (Fin (1 / 2)) (Fin (1 / 4)) = Fin (1 / 4)"
    unfolding q_sub_def q_neg.simps q_add.simps
    by (subst round64_eval [where k = "-5"], simp_all add: round64_calc)
       (subst round64_eval [where k = "-2"], simp_all add: round64_calc)
  have quot: "q_div (Fin (1 / 32)) (round64 0.05) = Fin (5 / 8)"
    unfolding chinOverBarThreshold_value [unfolded chinOverBarThreshold_def] q_div.simps
    by (subst round64_eval [where k = "-1"]) (simp_all add: round64_calc)
  have thr: "q_le (round64 0.05) (Fin (1 / 4))"
    unfolding chinOverBarThreshold_value [unfolded chinOverBarThreshold_def] by simp
  note sel = lm_ly
  have "checkChinOverBar (lm (1 / 2) (1 / 2)) (lm (1 / 4) (1 / 2)) (lm (3 / 4) (1 / 2)) = Fin 0"
    using checkChinOverBar_computed [where nose = "lm (1 / 2) (1 / 2)"
        and leftWrist = "lm (1 / 4) (1 / 2)" and rightWrist = "lm (3 / 4) (1 / 2)"] dbl
    unfolding Let_def sel mean by simp
  moreover have
    "checkChinOverBar (lm (1 / 2) (15 / 32)) (lm (1 / 4) (1 / 2)) (lm (3 / 4) (1 / 2))
       = Fin (5 / 8)"
    using checkChinOverBar_computed [where nose = "lm (1 / 2) (15 / 32)"
        and leftWrist = "lm (1 / 4) (1 / 2)" and rightWrist = "lm (3 / 4) (1 / 2)"] dbl
    unfolding Let_def sel mean gap quot by (simp add: q_min_def)
  moreover have
    "checkChinOverBar (lm (1 / 2) (1 / 4)) (lm (1 / 4) (1 / 2)) (lm (3 / 4) (1 / 2)) = Fin 1"
    using checkChinOverBar_computed [where nose = "lm (1 / 2) (1 / 4)"
        and leftWrist = "lm (1 / 4) (1 / 2)" and rightWrist = "lm (3 / 4) (1 / 2)"] dbl thr
    unfolding Let_def sel mean gap by blast
  ultimately show ?thesis using dbl by blast
qed

subsection \<open>C9: the repetition count never decreases\<close>

text \<open>
  Claim C9: for each of the three validators, \<open>repCount\<close> is 0 in a fresh validator and
  after \<open>reset\<close>, and over every sequence of \<open>validate\<close> calls, with whatever frames and
  clock readings, it never decreases; so it is never negative within a session and only
  \<open>reset\<close> brings a positive count back to 0.
\<close>

theorem repCount_monotone:
  "repCount PushUp_new = 0 \<and> repCount (PushUp_reset s) = 0
   \<and> repCount s \<le> repCount (snd (PushUp_run fs s))
   \<and> 0 \<le> repCount (snd (PushUp_run fs PushUp_new))
   \<and> 0 \<le> repCount (snd (PushUp_run fs (PushUp_reset s)))
   \<and> repCount ChinUp_new = 0 \<and> repCount (ChinUp_reset c) = 0
   \<and> repCount c \<le> repCount (snd (ChinUp_run gs c))
   \<and> 0 \<le> repCount (snd (ChinUp_run gs ChinUp_new))
   \<and> 0 \<le> repCount (snd (ChinUp_run gs (ChinUp_reset c)))
   \<and> repCount Plank_new = 0 \<and> repCount (Plank_reset k) = 0
   \<and> repCount k \<le> repCount (snd (Plank_run hs k))
   \<and> 0 \<le> repCount (snd (Plank_run hs Plank_new))
   \<and> 0 \<le> repCount (snd (Plank_run hs (Plank_reset k)))"
proof -
  have new: "repCount PushUp_new = 0" "repCount ChinUp_new = 0" "repCount Plank_new = 0"
    by (simp_all add: PushUp_new_def ChinUp_new_def Plank_new_def)
  have reset: "repCount (PushUp_reset s) = 0" "repCount (ChinUp_reset c) = 0"
    "repCount (Plank_reset k) = 0"
    by (simp_all add: PushUp_reset_def ChinUp_reset_def Plank_reset_def
        ExerciseValidator_reset_def)
  have "0 \<le> repCount (snd (PushUp_run fs PushUp_new))"
    "0 \<le> repCount (snd (PushUp_run fs (PushUp_reset s)))"
    using PushUp_run_mono [of PushUp_new fs] PushUp_run_mono [of "PushUp_reset s" fs]
    by (simp_all only: new reset)
  moreover have "0 \<le> repCount (snd (ChinUp_run gs ChinUp_new))"
    "0 \<le> repCount (snd (ChinUp_run gs (ChinUp_reset c)))"
    using ChinUp_run_mono [of ChinUp_new gs] ChinUp_run_mono [of "ChinUp_reset c" gs]
    by (simp_all only: new reset)
  moreover have "0 \<le> repCount (snd (Plank_run hs Plank_new))"
    "0 \<le> repCount (snd (Plank_run hs (Plank_reset k)))"
    using Plank_run_mono [of Plank_new hs] Plank_run_mono [of "Plank_reset k" hs]
    by (simp_all only: new reset)
  ultimately show ?thesis
    using new reset PushUp_run_mono [of s fs] ChinUp_run_mono [of c gs]
      Plank_run_mono [of k hs]
    by blast
qed

subsection \<open>C10: the push-up validator stuck with both phase flags set\<close>

lemma PushUp_stuck_step:
  assumes "pu_isInDownPosition s" "pu_isInUpPosition s"
  shows "pu_isInDownPosition (snd (PushUp_validate now p s))
         \<and> pu_isInUpPosition (snd (PushUp_validate now p s))
         \<and> repCount (snd (PushUp_validate now p s)) = repCount s
         \<and> \<not> completedRep (fst (PushUp_validate now p s))"
proof (cases "PushUp_visible p")
  case True
  with assms show ?thesis
    by (simp add: PushUp_validate_state PushUp_validate_completed PushUp_countRep_state
        PushUp_countRep_completed)
next
  case False
  with assms show ?thesis
    by (simp add: PushUp_validate_unseen)
qed

lemma PushUp_stuck_run:
  assumes "pu_isInDownPosition s" "pu_isInUpPosition s"
  shows "pu_isInDownPosition (snd (PushUp_run fs s))
         \<and> pu_isInUpPosition (snd (PushUp_run fs s))
         \<and> repCount (snd (PushUp_run fs s)) = repCount s
         \<and> (\<forall>r \<in> set (fst (PushUp_run fs s)). \<not> completedRep r)"
  using assms
proof (induction fs arbitrary: s)
  case Nil
  then show ?case by simp
next
  case (Cons f fs)
  obtain now p where f: "f = (now, p)" by (cases f)
  note step = PushUp_stuck_step [OF Cons.prems, of now p]
  from step Cons.IH [of "snd (PushUp_validate now p s)"] show ?case
    by (simp add: f)
qed

text \<open>
  Claim C10: when the push-up validator, in the down phase, sees a valid frame with the
  arms above 160 degrees less than 1000 ms after the last counted repetition, it sets
  \<open>isInUpPosition\<close> and keeps \<open>isInDownPosition\<close>, counting nothing.  From a state with both
  flags set, no sequence of \<open>validate\<close> calls changes the flags, completes a repetition or
  changes \<open>repCount\<close>; \<open>reset\<close> clears both flags.
\<close>

theorem pushup_stuck_after_gated_transition:
  "(PushUp_judgedValid p \<and> num_gt (frame_avgArmAngle p) 160
    \<and> pu_isInDownPosition s \<and> \<not> pu_isInUpPosition s
    \<and> now - lastValidationTime s < 1000 \<longrightarrow>
      pu_isInDownPosition (snd (PushUp_validate now p s))
      \<and> pu_isInUpPosition (snd (PushUp_validate now p s))
      \<and> repCount (snd (PushUp_validate now p s)) = repCount s)
   \<and> (pu_isInDownPosition s \<and> pu_isInUpPosition s \<longrightarrow>
        pu_isInDownPosition (snd (PushUp_run fs s))
        \<and> pu_isInUpPosition (snd (PushUp_run fs s))
        \<and> repCount (snd (PushUp_run fs s)) = repCount s
        \<and> (\<forall>r \<in> set (fst (PushUp_run fs s)). \<not> completedRep r))
   \<and> \<not> pu_isInDownPosition (PushUp_reset s) \<and> \<not> pu_isInUpPosition (PushUp_reset s)"
proof (intro conjI impI)
  assume a: "PushUp_judgedValid p \<and> num_gt (frame_avgArmAngle p) 160
    \<and> pu_isInDownPosition s \<and> \<not> pu_isInUpPosition s \<and> now - lastValidationTime s < 1000"
  then have v: "PushUp_visible p" by (simp add: PushUp_judgedValid_def)
  from a v show "pu_isInDownPosition (snd (PushUp_validate now p s))"
    and "pu_isInUpPosition (snd (PushUp_validate now p s))"
    and "repCount (snd (PushUp_validate now p s)) = repCount s"
    by (simp_all add: PushUp_validate_state PushUp_countRep_state)
next
  assume b: "pu_isInDownPosition s \<and> pu_isInUpPosition s"
  then have "pu_isInDownPosition s" "pu_isInUpPosition s" by simp_all
  from PushUp_stuck_run [OF this, of fs]
  show "pu_isInDownPosition (snd (PushUp_run fs s))"
    and "pu_isInUpPosition (snd (PushUp_run fs s))"
    and "repCount (snd (PushUp_run fs s)) = repCount s"
    and "\<forall>r \<in> set (fst (PushUp_run fs s)). \<not> completedRep r"
    by simp_all
next
  show "\<not> pu_isInDownPosition (PushUp_reset s)" "\<not> pu_isInUpPosition (PushUp_reset s)"
    by (simp_all add: PushUp_reset_def)
qed

theorem pushup_stuck_after_gated_transition_witness:
  "PushUp_judgedValid upPose \<and> num_gt (frame_avgArmAngle upPose) 160
   \<and> pu_isInDownPosition
        (snd (PushUp_run [(5000, downPose), (6500, upPose), (6800, downPose)] PushUp_new))
   \<and> \<not> pu_isInUpPosition
        (snd (PushUp_run [(5000, downPose), (6500, upPose), (6800, downPose)] PushUp_new))
   \<and> 7100 - lastValidationTime
        (snd (PushUp_run [(5000, downPose), (6500, upPose), (6800, downPose)] PushUp_new))
       < 1000
   \<and> pu_isInDownPosition
        (snd (PushUp_run [(5000, downPose), (6500, upPose), (6800, downPose),
                          (7100, upPose)] PushUp_new))
   \<and> pu_isInUpPosition
        (snd (PushUp_run [(5000, downPose), (6500, upPose), (6800, downPose),
                          (7100, upPose)] PushUp_new))
   \<and> repCount
        (snd (PushUp_run [(9000, downPose), (11000, upPose)]
           (snd (PushUp_run [(5000, downPose), (6500, upPose), (6800, downPose),
                             (7100, upPose)] PushUp_new)))) = 1"
proof -
  let ?s = "snd (PushUp_run [(5000, downPose), (6500, upPose), (6800, downPose)] PushUp_new)"
  let ?t = "snd (PushUp_validate 7100 upPose ?s)"
  have t: "snd (PushUp_run [(5000, downPose), (6500, upPose), (6800, downPose),
                            (7100, upPose)] PushUp_new) = ?t"
    by simp
  have pre: "PushUp_judgedValid upPose" "num_gt (frame_avgArmAngle upPose) 160"
    "pu_isInDownPosition ?s" "\<not> pu_isInUpPosition ?s" "7100 - lastValidationTime ?s < 1000"
    "repCount ?s = 1"
    by (simp_all add: pushup_eval downPose_facts upPose_facts)
  note A = pushup_stuck_after_gated_transition [of upPose ?s 7100 "[]"]
  from A pre have stuck: "pu_isInDownPosition ?t" "pu_isInUpPosition ?t" "repCount ?t = 1"
    by simp_all
  note B = pushup_stuck_after_gated_transition
    [of upPose ?t 7100 "[(9000, downPose), (11000, upPose)]"]
  from B stuck have "repCount (snd (PushUp_run [(9000, downPose), (11000, upPose)] ?t)) = 1"
    by (simp del: PushUp_run_Cons)
  with pre stuck show ?thesis by (simp only: t simp_thms)
qed

end
